theory Spec2Isabelle
  imports Complex_Main "HOL-Library.AList" "HOL-Library.Log_Nat"
begin

section \<open>Data model of \<^verbatim>\<open>load_dataset.py\<close>\<close>

text \<open>
  The loader reads JSON documents and keeps them as Python dictionaries and lists.
  Values that the code passes through without looking inside them (a message's
  \<^verbatim>\<open>id\<close>, a label's \<^verbatim>\<open>label_data\<close>, a session's \<^verbatim>\<open>info\<close>, a
  \<^verbatim>\<open>video_frame_id\<close>) are JSON values. A double is kept as mantissa and binary
  exponent; no function below computes with it.
\<close>

datatype json =
    JNull
  | JBool bool
  | JInt int
  | JFloat int int
  | JStr string
  | JArr "json list"
  | JObj "(string \<times> json) list"

text \<open>
  A label dictionary \<^verbatim>\<open>{"label_type": ..., "label_data": ...}\<close>; both keys are read
  with \<^verbatim>\<open>label[...]\<close>.
\<close>

record label =
  label_type :: string
  label_data :: json

text \<open>
  A message dictionary. The keys \<^verbatim>\<open>id\<close>, \<^verbatim>\<open>command\<close>, \<^verbatim>\<open>sender\<close> and
  \<^verbatim>\<open>timestamp\<close> are read with \<^verbatim>\<open>item[...]\<close>; \<^verbatim>\<open>video_frame_id\<close> and
  \<^verbatim>\<open>labels\<close> are read with \<^verbatim>\<open>item.get(...)\<close>, so they may be missing:
  \<open>None\<close> is the missing key. The field \<open>id_msg\<close> is the key \<^verbatim>\<open>id\<close>.
\<close>

record message =
  id_msg :: json
  command :: string
  sender :: string
  timestamp :: string
  video_frame_id :: "json option"
  labels :: "label list option"

text \<open>An entry of \<^verbatim>\<open>self.sessions\<close>.\<close>

record session =
  session_id :: string
  data :: "message list"
  info :: json

text \<open>
  The code builds its paths with pathlib and never looks inside them. It uses three
  operations: the constructor \<^verbatim>\<open>Path(s)\<close>, the join \<^verbatim>\<open>p / s\<close> with a string, and
  \<^verbatim>\<open>str(p)\<close> (also what an f-string prints). They are a parameter of the model: a
  record of the three operations over a type \<open>'p\<close> of path objects.
\<close>

record 'p pathlib =
  Path :: "string \<Rightarrow> 'p"
  joinpath :: "'p \<Rightarrow> string \<Rightarrow> 'p"
  str :: "'p \<Rightarrow> string"

text \<open>An instance of the class.\<close>

record 'p RobotLearningDataset =
  data_dir :: 'p
  exports_dir :: 'p
  sessions :: "session list"

text \<open>\<^verbatim>\<open>__init__\<close>: no file is touched.\<close>

definition init :: "'p pathlib \<Rightarrow> string \<Rightarrow> 'p RobotLearningDataset" where
  "init lib dir =
     \<lparr>data_dir = Path lib dir,
      exports_dir = joinpath lib (Path lib dir) ''exports'',
      sessions = []\<rparr>"

text \<open>
  The three operations as \<^verbatim>\<open>PurePosixPath\<close> has them. A path is its root
  (\<^verbatim>\<open>/\<close>, \<^verbatim>\<open>//\<close> for exactly two leading slashes, or none) and its parts: the
  pieces between slashes, without the empty ones and the single dots. Joining with a
  string that has a root gives the path of that string alone. The path without root and
  parts prints as a dot. The theorems below hold for every record of path operations;
  the examples are evaluated on this one.
\<close>

fun split_slash :: "string \<Rightarrow> string list" where
  "split_slash [] = [[]]"
| "split_slash (c # cs) =
     (if c = CHR ''/'' then [] # split_slash cs
      else (case split_slash cs of [] \<Rightarrow> [[c]] | w # ws \<Rightarrow> (c # w) # ws))"

fun join_slash :: "string list \<Rightarrow> string" where
  "join_slash [] = []"
| "join_slash [w] = w"
| "join_slash (w # ws) = w @ ''/'' @ join_slash ws"

type_synonym posix_path = "string \<times> string list"

definition posix_root :: "string \<Rightarrow> string" where
  "posix_root s =
     (if take 2 s = ''//'' \<and> take 3 s \<noteq> ''///'' then ''//''
      else if take 1 s = ''/'' then ''/''
      else [])"

definition posix_parts :: "string \<Rightarrow> string list" where
  "posix_parts s = filter (\<lambda>w. w \<noteq> [] \<and> w \<noteq> ''.'') (split_slash s)"

definition posix_Path :: "string \<Rightarrow> posix_path" where
  "posix_Path s = (posix_root s, posix_parts s)"

definition posix_joinpath :: "posix_path \<Rightarrow> string \<Rightarrow> posix_path" where
  "posix_joinpath p s =
     (if posix_root s \<noteq> [] then posix_Path s
      else (fst p, snd p @ posix_parts s))"

definition posix_str :: "posix_path \<Rightarrow> string" where
  "posix_str p = (if fst p = [] \<and> snd p = [] then ''.'' else fst p @ join_slash (snd p))"

definition posix :: "posix_path pathlib" where
  "posix = \<lparr>Path = posix_Path, joinpath = posix_joinpath, str = posix_str\<rparr>"

text \<open>The exceptions that the modelled code can raise.\<close>

datatype error =
    FileNotFoundError string
  | JSONDecodeError
  | KeyError string
  | ValueError
  | ZeroDivisionError
  | OverflowError

section \<open>The tabular projection\<close>

text \<open>
  \<^verbatim>\<open>to_dataframe\<close> builds a list of row dictionaries and hands it to
  \<^verbatim>\<open>pd.DataFrame\<close>, which makes one table row of each dictionary, in list order,
  with a column for every key that occurs; a key missing from a row's dictionary is a
  null cell. The projection is modelled as that list of dictionaries. A dictionary is an
  association list with Python's assignment \<^verbatim>\<open>row[k] = v\<close>: \<^const>\<open>AList.update\<close>
  overwrites the value of a key that is present and appends a new key.

  A cell holds a Python value: a JSON value (\<open>JNull\<close> is \<^verbatim>\<open>None\<close>) or the
  result of \<^verbatim>\<open>pd.to_datetime\<close>. The parser is a parameter \<open>to_datetime\<close>; it
  returns \<open>None\<close> where pandas raises on a string that is no date.
\<close>

datatype 'ts cell = Val json | Timestamp 'ts

type_synonym 'ts row = "(string \<times> 'ts cell) list"

text \<open>Lines 108 to 110: the loop over the labels of one message.\<close>

fun label_columns :: "label list \<Rightarrow> 'ts row \<Rightarrow> 'ts row" where
  "label_columns [] row = row"
| "label_columns (l # ls) row =
     label_columns ls (AList.update (''label_'' @ label_type l) (Val (label_data l)) row)"

text \<open>\<^verbatim>\<open>item.get('labels', [])\<close>.\<close>

definition get_labels :: "message \<Rightarrow> label list" where
  "get_labels item = (case labels item of None \<Rightarrow> [] | Some ls \<Rightarrow> ls)"

text \<open>Lines 93 to 110: the row of one message.\<close>

definition make_row :: "(string \<Rightarrow> 'ts option) \<Rightarrow> string \<Rightarrow> message \<Rightarrow> error + 'ts row" where
  "make_row to_datetime sid item =
     (case to_datetime (timestamp item) of
        None \<Rightarrow> Inl ValueError
      | Some t \<Rightarrow>
          let row = [(''session_id'', Val (JStr sid)),
                     (''message_id'', Val (id_msg item)),
                     (''command'', Val (JStr (command item))),
                     (''sender'', Val (JStr (sender item))),
                     (''timestamp'', Timestamp t),
                     (''video_frame_id'',
                        Val (case video_frame_id item of None \<Rightarrow> JNull | Some v \<Rightarrow> v))];
              ls = get_labels item;
              row = AList.update ''label_count'' (Val (JInt (int (length ls)))) row
          in Inr (if ls \<noteq> [] then label_columns ls row else row))"

text \<open>The inner loop over \<^verbatim>\<open>session['data']\<close>, appending to \<^verbatim>\<open>rows\<close>.\<close>

fun data_rows ::
  "(string \<Rightarrow> 'ts option) \<Rightarrow> string \<Rightarrow> message list \<Rightarrow> 'ts row list \<Rightarrow> error + 'ts row list" where
  "data_rows to_datetime sid [] rows = Inr rows"
| "data_rows to_datetime sid (item # items) rows =
     (case make_row to_datetime sid item of
        Inl e \<Rightarrow> Inl e
      | Inr row \<Rightarrow> data_rows to_datetime sid items (rows @ [row]))"

text \<open>The outer loop over \<^verbatim>\<open>self.sessions\<close>.\<close>

fun session_rows ::
  "(string \<Rightarrow> 'ts option) \<Rightarrow> session list \<Rightarrow> 'ts row list \<Rightarrow> error + 'ts row list" where
  "session_rows to_datetime [] rows = Inr rows"
| "session_rows to_datetime (s # ss) rows =
     (case data_rows to_datetime (session_id s) (data s) rows of
        Inl e \<Rightarrow> Inl e
      | Inr rows' \<Rightarrow> session_rows to_datetime ss rows')"

definition to_dataframe ::
  "(string \<Rightarrow> 'ts option) \<Rightarrow> 'p RobotLearningDataset \<Rightarrow> error + 'ts row list" where
  "to_dataframe to_datetime self = session_rows to_datetime (sessions self) []"

text \<open>Reading a column of a row: \<open>None\<close> is the null cell.\<close>

definition column :: "string \<Rightarrow> 'ts row \<Rightarrow> 'ts cell option" where
  "column k row = map_of row k"

section \<open>Statistics\<close>

text \<open>
  The loop of \<^verbatim>\<open>get_statistics\<close> keeps the dictionary \<^verbatim>\<open>senders\<close> and the
  counter \<^verbatim>\<open>total_labels\<close>. Lengths and counters are natural numbers.
\<close>

fun count_items :: "message list \<Rightarrow> (string \<times> nat) list \<times> nat \<Rightarrow> (string \<times> nat) list \<times> nat" where
  "count_items [] acc = acc"
| "count_items (item # items) (senders, total_labels) =
     count_items items
       (AList.update (sender item)
          ((case map_of senders (sender item) of None \<Rightarrow> 0 | Some n \<Rightarrow> n) + 1) senders,
        total_labels + length (get_labels item))"

fun count_sessions :: "session list \<Rightarrow> (string \<times> nat) list \<times> nat \<Rightarrow> (string \<times> nat) list \<times> nat" where
  "count_sessions [] acc = acc"
| "count_sessions (s # ss) acc = count_sessions ss (count_items (data s) acc)"

text \<open>
  Python's \<^verbatim>\<open>a / b\<close> on two integers that are not negative. It raises on a zero
  divisor. Otherwise the result is the double nearest to the quotient, ties going to
  the even mantissa: with \<open>e\<close> the binary exponent of the quotient, the quotient is
  rounded to a multiple of \<open>2 ^ u\<close>, where \<open>u\<close> is \<open>e - 52\<close> and at least
  \<open>- 1074\<close>; a result of \<open>2 ^ 1024\<close> or more raises. The double is returned as the
  rational number it stands for.
\<close>

text \<open>The quotient of \<open>n\<close> by \<open>d\<close>, rounded to an integer, ties to even.\<close>

definition round_half_even :: "nat \<Rightarrow> nat \<Rightarrow> nat" where
  "round_half_even n d =
     (let q = n div d; r = n mod d
      in if 2 * r < d then q
         else if d < 2 * r then q + 1
         else if even q then q else q + 1)"

text \<open>
  The binary exponent of the quotient of two positive numbers: the \<open>e\<close> with
  \<open>2 ^ e \<le> a / b < 2 ^ (e + 1)\<close>, found from the bit lengths.
\<close>

definition binary_exponent :: "nat \<Rightarrow> nat \<Rightarrow> int" where
  "binary_exponent a b =
     (let d = int (floorlog 2 a) - int (floorlog 2 b)
      in if (if 0 \<le> d then b * 2 ^ nat d \<le> a else b \<le> a * 2 ^ nat (- d))
         then d else d - 1)"

text \<open>The quotient of \<open>a\<close> by \<open>b\<close>, rounded to a multiple of \<open>2 ^ u\<close>.\<close>

definition round_to_multiple :: "nat \<Rightarrow> nat \<Rightarrow> int \<Rightarrow> rat" where
  "round_to_multiple a b u =
     (if 0 \<le> u then of_nat (round_half_even a (b * 2 ^ nat u)) * 2 ^ nat u
      else of_nat (round_half_even (a * 2 ^ nat (- u)) b) / 2 ^ nat (- u))"

definition truediv :: "nat \<Rightarrow> nat \<Rightarrow> error + rat" where
  "truediv a b =
     (if b = 0 then Inl ZeroDivisionError
      else if a = 0 then Inr 0
      else
        let v = round_to_multiple a b (max (binary_exponent a b - 52) (- 1074))
        in if 2 ^ 1024 \<le> v then Inl OverflowError else Inr v)"

record statistics =
  total_sessions :: nat
  total_messages :: nat
  total_labels :: nat
  messages_by_sender :: "(string \<times> nat) list"
  avg_messages_per_session :: rat
  avg_labels_per_message :: rat

definition get_statistics :: "'p RobotLearningDataset \<Rightarrow> error + statistics" where
  "get_statistics self =
     (let total_messages = sum_list (map (\<lambda>s. length (data s)) (sessions self));
          (senders, total_labels) = count_sessions (sessions self) ([], 0)
      in case (if sessions self \<noteq> [] then truediv total_messages (length (sessions self))
               else Inr 0) of
           Inl e \<Rightarrow> Inl e
         | Inr avg_messages \<Rightarrow>
             (case (if total_messages \<noteq> 0 then truediv total_labels total_messages
                    else Inr 0) of
                Inl e \<Rightarrow> Inl e
              | Inr avg_labels \<Rightarrow>
                  Inr \<lparr>total_sessions = length (sessions self),
                       total_messages = total_messages,
                       total_labels = total_labels,
                       messages_by_sender = senders,
                       avg_messages_per_session = avg_messages,
                       avg_labels_per_message = avg_labels\<rparr>))"

section \<open>Filters\<close>

text \<open>
  The two filters create a second instance and append to its list while they read the
  first one, so they are modelled over a store of instances: an address is an index
  into the store, \<^verbatim>\<open>RobotLearningDataset(str(self.data_dir))\<close> allocates the next
  address, and
  \<^verbatim>\<open>filtered.sessions.append(...)\<close> writes at the address of \<^verbatim>\<open>filtered\<close>.
  Each instance owns its list: \<^verbatim>\<open>__init__\<close> creates it and no method hands it out.
\<close>

type_synonym 'p store = "'p RobotLearningDataset list"

definition new_instance :: "'p pathlib \<Rightarrow> string \<Rightarrow> 'p store \<Rightarrow> nat \<times> 'p store" where
  "new_instance lib dir st = (length st, st @ [init lib dir])"

definition sessions_append :: "nat \<Rightarrow> session \<Rightarrow> 'p store \<Rightarrow> 'p store" where
  "sessions_append a s st = st[a := (st ! a)\<lparr>sessions := sessions (st ! a) @ [s]\<rparr>]"

text \<open>Lines 194 to 205; \<open>sender'\<close> is the argument \<^verbatim>\<open>sender\<close>.\<close>

fun filter_by_sender_loop ::
  "string \<Rightarrow> nat \<Rightarrow> session list \<Rightarrow> 'p store \<Rightarrow> 'p store" where
  "filter_by_sender_loop sender' filtered [] st = st"
| "filter_by_sender_loop sender' filtered (s # ss) st =
     (let filtered_data = filter (\<lambda>item. sender item = sender') (data s)
      in filter_by_sender_loop sender' filtered ss
           (if filtered_data \<noteq> []
            then sessions_append filtered
                   \<lparr>session_id = session_id s, data = filtered_data, info = info s\<rparr> st
            else st))"

definition filter_by_sender ::
  "'p pathlib \<Rightarrow> 'p store \<Rightarrow> nat \<Rightarrow> string \<Rightarrow> nat \<times> 'p store" where
  "filter_by_sender lib st self sender' =
     (let (filtered, st1) = new_instance lib (str lib (data_dir (st ! self))) st
      in (filtered, filter_by_sender_loop sender' filtered (sessions (st1 ! self)) st1))"

text \<open>
  Lines 216 to 228, the loop over the messages of one session; \<open>label_type'\<close> is the
  argument \<^verbatim>\<open>label_type\<close>, \<open>None\<close> when it is not given.
\<close>

fun labelled_items :: "string option \<Rightarrow> message list \<Rightarrow> message list \<Rightarrow> message list" where
  "labelled_items label_type' [] filtered_data = filtered_data"
| "labelled_items label_type' (item # items) filtered_data =
     (let ls = get_labels item
      in if ls = [] then labelled_items label_type' items filtered_data
         else (case label_type' of
                 None \<Rightarrow> labelled_items label_type' items (filtered_data @ [item])
               | Some t \<Rightarrow>
                   if list_ex (\<lambda>l. label_type l = t) ls
                   then labelled_items label_type' items (filtered_data @ [item])
                   else labelled_items label_type' items filtered_data))"

fun filter_by_labels_loop ::
  "string option \<Rightarrow> nat \<Rightarrow> session list \<Rightarrow> 'p store \<Rightarrow> 'p store" where
  "filter_by_labels_loop label_type' filtered [] st = st"
| "filter_by_labels_loop label_type' filtered (s # ss) st =
     (let filtered_data = labelled_items label_type' (data s) []
      in filter_by_labels_loop label_type' filtered ss
           (if filtered_data \<noteq> []
            then sessions_append filtered
                   \<lparr>session_id = session_id s, data = filtered_data, info = info s\<rparr> st
            else st))"

definition filter_by_labels ::
  "'p pathlib \<Rightarrow> 'p store \<Rightarrow> nat \<Rightarrow> string option \<Rightarrow> nat \<times> 'p store" where
  "filter_by_labels lib st self label_type' =
     (let (filtered, st1) = new_instance lib (str lib (data_dir (st ! self))) st
      in (filtered, filter_by_labels_loop label_type' filtered (sessions (st1 ! self)) st1))"

section \<open>Loading\<close>

text \<open>
  What \<^verbatim>\<open>json.load\<close> returns for a file: a dictionary in which each of the keys
  the loader reads may be missing. An entry of the manifest's \<^verbatim>\<open>sessions\<close> list is
  a dictionary of which only \<^verbatim>\<open>session_id\<close> is read: \<open>None\<close> when it has no such
  key.
\<close>

type_synonym manifest_entry = "string option"

record document =
  doc_data :: "message list option"
  doc_info :: "json option"
  doc_sessions :: "manifest_entry list option"

text \<open>
  The file system maps a path object to \<open>None\<close> when \<^verbatim>\<open>exists()\<close> is false, and
  otherwise to what opening and parsing the file gives: an exception or a document.
\<close>

type_synonym 'p filesystem = "'p \<Rightarrow> (error + document) option"

text \<open>Line 55; \<open>session_id'\<close> is the argument \<^verbatim>\<open>session_id\<close>.\<close>

definition session_file :: "'p pathlib \<Rightarrow> 'p RobotLearningDataset \<Rightarrow> string \<Rightarrow> 'p" where
  "session_file lib self session_id' =
     joinpath lib (exports_dir self) (session_id' @ ''_huggingface.json'')"

text \<open>
  \<^verbatim>\<open>load_session\<close> returns the exception it raised, if any, and the instance as the
  call leaves it.
\<close>

definition load_session ::
  "'p pathlib \<Rightarrow> 'p filesystem \<Rightarrow> string \<Rightarrow> 'p RobotLearningDataset
     \<Rightarrow> error option \<times> 'p RobotLearningDataset" where
  "load_session lib fs session_id' self =
     (case fs (session_file lib self session_id') of
        None \<Rightarrow>
          (Some (FileNotFoundError
                   (''Session export not found: '' @ str lib (session_file lib self session_id'))),
           self)
      | Some (Inl e) \<Rightarrow> (Some e, self)
      | Some (Inr doc) \<Rightarrow>
          (case doc_data doc of
             None \<Rightarrow> (Some (KeyError ''data''), self)
           | Some d \<Rightarrow>
               (case doc_info doc of
                  None \<Rightarrow> (Some (KeyError ''info''), self)
                | Some i \<Rightarrow>
                    (None, self\<lparr>sessions := sessions self @
                             [\<lparr>session_id = session_id', data = d, info = i\<rparr>]\<rparr>))))"

text \<open>
  The loop of \<^verbatim>\<open>load_from_manifest\<close>. The last component of the state is what
  \<^verbatim>\<open>print\<close> has written, one line per element. Only \<^verbatim>\<open>FileNotFoundError\<close> is
  caught.
\<close>

fun load_entries ::
  "'p pathlib \<Rightarrow> 'p filesystem \<Rightarrow> manifest_entry list \<Rightarrow> 'p RobotLearningDataset \<Rightarrow> string list
     \<Rightarrow> error option \<times> 'p RobotLearningDataset \<times> string list" where
  "load_entries lib fs [] self out = (None, self, out)"
| "load_entries lib fs (entry # entries) self out =
     (case entry of
        None \<Rightarrow> (Some (KeyError ''session_id''), self, out)
      | Some sid \<Rightarrow>
          (case load_session lib fs sid self of
             (None, self') \<Rightarrow> load_entries lib fs entries self' out
           | (Some (FileNotFoundError msg), self') \<Rightarrow>
               load_entries lib fs entries self'
                 (out @ [''Warning: Could not load session '' @ sid])
           | (Some e, self') \<Rightarrow> (Some e, self', out)))"

definition manifest_file :: "'p pathlib \<Rightarrow> 'p RobotLearningDataset \<Rightarrow> 'p" where
  "manifest_file lib self = joinpath lib (exports_dir self) ''dataset_manifest.json''"

definition load_from_manifest ::
  "'p pathlib \<Rightarrow> 'p filesystem \<Rightarrow> 'p RobotLearningDataset \<Rightarrow> string list
     \<Rightarrow> error option \<times> 'p RobotLearningDataset \<times> string list" where
  "load_from_manifest lib fs self out =
     (case fs (manifest_file lib self) of
        None \<Rightarrow>
          (Some (FileNotFoundError
                   (''Dataset manifest not found: '' @ str lib (manifest_file lib self))),
           self, out)
      | Some (Inl e) \<Rightarrow> (Some e, self, out)
      | Some (Inr manifest) \<Rightarrow>
          (case doc_sessions manifest of
             None \<Rightarrow> (Some (KeyError ''sessions''), self, out)
           | Some entries \<Rightarrow> load_entries lib fs entries self out))"

text \<open>The two class methods: a new instance, loaded, or the exception.\<close>

definition from_session ::
  "'p pathlib \<Rightarrow> 'p filesystem \<Rightarrow> string \<Rightarrow> string \<Rightarrow> error + 'p RobotLearningDataset" where
  "from_session lib fs session_id' dir =
     (case load_session lib fs session_id' (init lib dir) of
        (None, dataset) \<Rightarrow> Inr dataset
      | (Some e, dataset) \<Rightarrow> Inl e)"

definition from_manifest ::
  "'p pathlib \<Rightarrow> 'p filesystem \<Rightarrow> string \<Rightarrow> (error + 'p RobotLearningDataset) \<times> string list" where
  "from_manifest lib fs dir =
     (case load_from_manifest lib fs (init lib dir) [] of
        (None, dataset, out) \<Rightarrow> (Inr dataset, out)
      | (Some e, dataset, out) \<Rightarrow> (Inl e, out))"

section \<open>Example data\<close>

text \<open>
  A session \<^verbatim>\<open>s1\<close> of two messages, the first with one label of type
  \<^verbatim>\<open>quality\<close>, the second without the key \<^verbatim>\<open>labels\<close>; and a session
  \<^verbatim>\<open>s3\<close> of one message with two labels of one type.
\<close>

definition example_s1 :: session where
  "example_s1 =
     \<lparr>session_id = ''s1'',
      data = [\<lparr>id_msg = JInt 1, command = ''pick up the cube'', sender = ''scientist'',
               timestamp = ''2024-01-01T10:00:00'', video_frame_id = Some (JStr ''frame_1''),
               labels = Some [\<lparr>label_type = ''quality'', label_data = JStr ''good''\<rparr>]\<rparr>,
              \<lparr>id_msg = JInt 2, command = ''done'', sender = ''robot'',
               timestamp = ''2024-01-01T10:00:05'', video_frame_id = None,
               labels = None\<rparr>],
      info = JObj [(''robot'', JStr ''arm'')]\<rparr>"

definition example_s3 :: session where
  "example_s3 =
     \<lparr>session_id = ''s3'',
      data = [\<lparr>id_msg = JInt 1, command = ''open the gripper'', sender = ''scientist'',
               timestamp = ''2024-01-02T09:00:00'', video_frame_id = None,
               labels = Some [\<lparr>label_type = ''quality'', label_data = JStr ''bad''\<rparr>,
                              \<lparr>label_type = ''quality'', label_data = JStr ''good''\<rparr>]\<rparr>],
      info = JNull\<rparr>"

definition example_dataset :: "posix_path RobotLearningDataset" where
  "example_dataset = (init posix ''../data'')\<lparr>sessions := [example_s1, example_s3]\<rparr>"

text \<open>
  A file system with a manifest that lists \<^verbatim>\<open>s1\<close>, \<^verbatim>\<open>s2\<close> and \<^verbatim>\<open>s3\<close>, and
  with the exports of \<^verbatim>\<open>s1\<close> and \<^verbatim>\<open>s3\<close> only.
\<close>

definition example_fs :: "posix_path filesystem" where
  "example_fs path =
     (if path = ([], [''..'', ''data'', ''exports'', ''dataset_manifest.json''])
      then Some (Inr \<lparr>doc_data = None, doc_info = None,
                       doc_sessions = Some [Some ''s1'', Some ''s2'', Some ''s3'']\<rparr>)
      else if path = ([], [''..'', ''data'', ''exports'', ''s1_huggingface.json''])
      then Some (Inr \<lparr>doc_data = Some (data example_s1), doc_info = Some (info example_s1),
                       doc_sessions = None\<rparr>)
      else if path = ([], [''..'', ''data'', ''exports'', ''s3_huggingface.json''])
      then Some (Inr \<lparr>doc_data = Some (data example_s3), doc_info = Some (info example_s3),
                       doc_sessions = None\<rparr>)
      else None)"

text \<open>
  An export at an absolute path, outside the exports directory, and a manifest, in a
  second data directory, that lists it by that path.
\<close>

definition absolute_fs :: "posix_path filesystem" where
  "absolute_fs path =
     (if path = ([], [''other'', ''exports'', ''dataset_manifest.json''])
      then Some (Inr \<lparr>doc_data = None, doc_info = None,
                       doc_sessions = Some [Some ''/abs/s9'', Some ''s2'']\<rparr>)
      else if path = (''/'', [''abs'', ''s9_huggingface.json''])
      then Some (Inr \<lparr>doc_data = Some (data example_s3), doc_info = Some (info example_s3),
                       doc_sessions = None\<rparr>)
      else None)"

text \<open>
  Two sessions with labels of type \<^verbatim>\<open>count\<close>: in the first, one message has such a
  label and the other has no labels; in the second, one message has two such labels.
\<close>

definition count_label_session :: session where
  "count_label_session =
     \<lparr>session_id = ''s4'',
      data = [\<lparr>id_msg = JInt 1, command = ''stack the blocks'', sender = ''scientist'',
               timestamp = ''2024-01-03T08:00:00'', video_frame_id = None,
               labels = Some [\<lparr>label_type = ''count'', label_data = JStr ''high''\<rparr>]\<rparr>,
              \<lparr>id_msg = JInt 2, command = ''stacked'', sender = ''robot'',
               timestamp = ''2024-01-03T08:00:09'', video_frame_id = None,
               labels = None\<rparr>],
      info = JNull\<rparr>"

definition repeated_count_session :: session where
  "repeated_count_session =
     \<lparr>session_id = ''s5'',
      data = [\<lparr>id_msg = JInt 1, command = ''count the blocks'', sender = ''scientist'',
               timestamp = ''2024-01-04T08:00:00'', video_frame_id = None,
               labels = Some [\<lparr>label_type = ''count'', label_data = JStr ''a''\<rparr>,
                              \<lparr>label_type = ''count'', label_data = JStr ''b''\<rparr>]\<rparr>],
      info = JNull\<rparr>"

section \<open>Properties of the tabular projection\<close>

lemma label_columns_other:
  "\<not> (\<exists>t. k = ''label_'' @ t) \<Longrightarrow> map_of (label_columns ls row) k = map_of row k"
  by (induction ls arbitrary: row) (auto simp: update_conv')

lemma make_row_Inr_iff: "(\<exists>r. make_row td sid m = Inr r) \<longleftrightarrow> td (timestamp m) \<noteq> None"
  by (auto simp: make_row_def Let_def split: option.splits)

lemma make_row_fixed_columns:
  assumes "make_row td sid m = Inr r"
  shows "column ''session_id'' r = Some (Val (JStr sid))"
    and "column ''message_id'' r = Some (Val (id_msg m))"
    and "column ''command'' r = Some (Val (JStr (command m)))"
    and "column ''sender'' r = Some (Val (JStr (sender m)))"
    and "column ''video_frame_id'' r = Some (Val (case video_frame_id m of None \<Rightarrow> JNull | Some v \<Rightarrow> v))"
  using assms
  by (auto simp: make_row_def Let_def column_def label_columns_other update_conv' split: option.splits)

lemma data_rows_ok:
  "\<forall>m\<in>set items. td (timestamp m) \<noteq> None \<Longrightarrow>
   \<exists>new. data_rows td sid items rows = Inr (rows @ new) \<and> map Inr new = map (make_row td sid) items"
proof (induction items arbitrary: rows)
  case Nil
  then show ?case by simp
next
  case (Cons m items)
  then obtain r where r: "make_row td sid m = Inr r"
    using make_row_Inr_iff [of td sid m] by auto
  from Cons.prems have "\<forall>m\<in>set items. td (timestamp m) \<noteq> None" by simp
  from Cons.IH [OF this, of "rows @ [r]"] obtain new where
    "data_rows td sid items (rows @ [r]) = Inr ((rows @ [r]) @ new)"
    "map Inr new = map (make_row td sid) items" by blast
  with r show ?case by (intro exI [of _ "r # new"]) simp
qed

lemma session_rows_ok:
  "\<forall>s\<in>set ss. \<forall>m\<in>set (data s). td (timestamp m) \<noteq> None \<Longrightarrow>
   \<exists>new. session_rows td ss rows = Inr (rows @ new) \<and>
     map Inr new = concat (map (\<lambda>s. map (make_row td (session_id s)) (data s)) ss)"
proof (induction ss arbitrary: rows)
  case Nil
  then show ?case by simp
next
  case (Cons s ss)
  from Cons.prems have "\<forall>m\<in>set (data s). td (timestamp m) \<noteq> None" by simp
  from data_rows_ok [OF this, of "session_id s" rows] obtain n1 where
    n1: "data_rows td (session_id s) (data s) rows = Inr (rows @ n1)"
        "map Inr n1 = map (make_row td (session_id s)) (data s)" by blast
  from Cons.prems have "\<forall>s\<in>set ss. \<forall>m\<in>set (data s). td (timestamp m) \<noteq> None" by simp
  from Cons.IH [OF this, of "rows @ n1"] obtain n2 where
    n2: "session_rows td ss (rows @ n1) = Inr ((rows @ n1) @ n2)"
        "map Inr n2 = concat (map (\<lambda>s. map (make_row td (session_id s)) (data s)) ss)" by blast
  from n1 n2 show ?case by (intro exI [of _ "n1 @ n2"]) simp
qed

text \<open>The key columns of rows made from a list of messages paired with session identifiers.\<close>

lemma rows_keys:
  "map Inr rows = map (\<lambda>(sid, m). make_row td sid m) ps \<Longrightarrow>
   map (\<lambda>r. (column ''session_id'' r, column ''message_id'' r)) rows =
   map (\<lambda>(sid, m). (Some (Val (JStr sid)), Some (Val (id_msg m)))) ps"
proof (induction rows arbitrary: ps)
  case Nil
  then show ?case by simp
next
  case (Cons r rows)
  then obtain sid m ps' where ps: "ps = (sid, m) # ps'" by (cases ps) auto
  with Cons.prems have r: "make_row td sid m = Inr r"
    and rest: "map Inr rows = map (\<lambda>(sid, m). make_row td sid m) ps'" by simp_all
  from make_row_fixed_columns(1,2) [OF r] Cons.IH [OF rest] ps show ?case by simp
qed

lemma concat_pairs:
  "concat (map (\<lambda>s. map (f (session_id s)) (data s)) ss) =
   map (\<lambda>(sid, m). f sid m) (concat (map (\<lambda>s. map (Pair (session_id s)) (data s)) ss))"
  by (induction ss) (simp_all add: comp_def)

text \<open>
  Claim C1. When every timestamp is one that \<^verbatim>\<open>pd.to_datetime\<close> parses,
  \<^verbatim>\<open>to_dataframe\<close> returns a projection with exactly one row per message: the
  number of rows is the sum of the message counts of the held sessions, the rows are
  the rows of the messages in session order and, within a session, in message order,
  and the columns \<^verbatim>\<open>session_id\<close> and \<^verbatim>\<open>message_id\<close> of the rows read off that
  order.
\<close>

theorem to_dataframe_rows:
  fixes to_datetime :: "string \<Rightarrow> 'ts option"
  assumes "\<forall>s\<in>set (sessions self). \<forall>m\<in>set (data s). to_datetime (timestamp m) \<noteq> None"
  shows "\<exists>rows. to_dataframe to_datetime self = Inr rows \<and>
     length rows = sum_list (map (\<lambda>s. length (data s)) (sessions self)) \<and>
     map Inr rows =
       concat (map (\<lambda>s. map (make_row to_datetime (session_id s)) (data s)) (sessions self)) \<and>
     map (\<lambda>r. (column ''session_id'' r, column ''message_id'' r)) rows =
       concat (map (\<lambda>s. map (\<lambda>m. (Some (Val (JStr (session_id s))), Some (Val (id_msg m))))
                            (data s)) (sessions self))"
proof -
  from session_rows_ok [OF assms, of "[]"] obtain rows where
    rows: "to_dataframe to_datetime self = Inr rows"
    and each: "map Inr rows =
      concat (map (\<lambda>s. map (make_row to_datetime (session_id s)) (data s)) (sessions self))"
    by (auto simp: to_dataframe_def)
  have "length rows = length (map Inr rows :: (error + 'ts row) list)" by simp
  also have "\<dots> = sum_list (map (\<lambda>s. length (data s)) (sessions self))"
    unfolding each by (simp add: length_concat comp_def)
  finally have len: "length rows = sum_list (map (\<lambda>s. length (data s)) (sessions self))" .
  have keys: "map (\<lambda>r. (column ''session_id'' r, column ''message_id'' r)) rows =
       concat (map (\<lambda>s. map (\<lambda>m. (Some (Val (JStr (session_id s))), Some (Val (id_msg m))))
                            (data s)) (sessions self))"
    using rows_keys [of rows to_datetime
        "concat (map (\<lambda>s. map (Pair (session_id s)) (data s)) (sessions self))"]
      each
    by (simp only: concat_pairs [of "make_row to_datetime"]
        concat_pairs [of "\<lambda>sid m. (Some (Val (JStr sid)), Some (Val (id_msg m)))"])
  from rows len each keys show ?thesis by blast
qed

lemma make_row_Inl: "make_row td sid m = Inl e \<Longrightarrow> e = ValueError \<and> td (timestamp m) = None"
  by (auto simp: make_row_def Let_def split: option.splits)

lemma data_rows_Inl: "data_rows td sid items rows = Inl e \<Longrightarrow> e = ValueError"
  by (induction items arbitrary: rows) (auto split: sum.splits dest: make_row_Inl)

lemma data_rows_fails:
  "m \<in> set items \<Longrightarrow> td (timestamp m) = None \<Longrightarrow> data_rows td sid items rows = Inl ValueError"
proof (induction items arbitrary: rows)
  case Nil
  then show ?case by simp
next
  case (Cons a items)
  show ?case
  proof (cases "make_row td sid a")
    case (Inl e)
    then show ?thesis using make_row_Inl [OF Inl] by simp
  next
    case (Inr r)
    then have "td (timestamp a) \<noteq> None" using make_row_Inr_iff [of td sid a] by blast
    with Cons.prems have "m \<in> set items" by auto
    from Cons.IH [OF this Cons.prems(2)] Inr show ?thesis by simp
  qed
qed

lemma session_rows_fails:
  "s \<in> set ss \<Longrightarrow> m \<in> set (data s) \<Longrightarrow> td (timestamp m) = None \<Longrightarrow>
   session_rows td ss rows = Inl ValueError"
proof (induction ss arbitrary: rows)
  case Nil
  then show ?case by simp
next
  case (Cons a ss)
  show ?case
  proof (cases "data_rows td (session_id a) (data a) rows")
    case (Inl e)
    then show ?thesis using data_rows_Inl [OF Inl] by simp
  next
    case (Inr rows')
    with data_rows_fails [of m "data a" td "session_id a" rows] Cons.prems
    have "s \<noteq> a" by auto
    with Cons.prems have "s \<in> set ss" by simp
    from Cons.IH [OF this Cons.prems(2,3)] Inr show ?thesis by simp
  qed
qed

lemma to_dataframe_fails:
  assumes "s \<in> set (sessions self)" and "m \<in> set (data s)" and "to_datetime (timestamp m) = None"
  shows "to_dataframe to_datetime self = Inl ValueError"
  using session_rows_fails [of s "sessions self" m to_datetime "[]"] assms
  by (simp add: to_dataframe_def)

theorem to_dataframe_rows_witness:
  "\<exists>rows. to_dataframe Some example_dataset = Inr rows \<and> length rows = 3 \<and>
     map (\<lambda>r. (column ''session_id'' r, column ''message_id'' r)) rows =
       [(Some (Val (JStr ''s1'')), Some (Val (JInt 1))),
        (Some (Val (JStr ''s1'')), Some (Val (JInt 2))),
        (Some (Val (JStr ''s3'')), Some (Val (JInt 1)))]"
proof -
  have parsed: "\<forall>s\<in>set (sessions example_dataset). \<forall>m\<in>set (data s). Some (timestamp m) \<noteq> None"
    by simp
  from to_dataframe_rows [OF parsed] obtain rows where
    "to_dataframe Some example_dataset = Inr rows"
    "length rows = sum_list (map (\<lambda>s. length (data s)) (sessions example_dataset))"
    "map (\<lambda>r. (column ''session_id'' r, column ''message_id'' r)) rows =
       concat (map (\<lambda>s. map (\<lambda>m. (Some (Val (JStr (session_id s))), Some (Val (id_msg m))))
                            (data s)) (sessions example_dataset))"
    by blast
  then show ?thesis
    by (intro exI [of _ rows]) (simp add: example_dataset_def example_s1_def example_s3_def)
qed

section \<open>Properties of the statistics\<close>

lemma count_items_labels:
  "snd (count_items items (senders, n)) = n + sum_list (map (\<lambda>m. length (get_labels m)) items)"
  by (induction items arbitrary: senders n) auto

lemma count_items_senders:
  "map_of (fst (count_items items (senders, n))) x =
     (let k = (case map_of senders x of None \<Rightarrow> 0 | Some c \<Rightarrow> c) + length (filter (\<lambda>m. sender m = x) items)
      in if map_of senders x = None \<and> (\<forall>m\<in>set items. sender m \<noteq> x) then None else Some k)"
proof (induction items arbitrary: senders n)
  case Nil
  then show ?case by (auto simp: Let_def split: option.splits)
next
  case (Cons a items)
  show ?case
    by (simp add: Cons.IH update_conv' Let_def split: option.splits)
qed


lemma count_items_append:
  "count_items (xs @ ys) acc = count_items ys (count_items xs acc)"
  by (induction xs arbitrary: acc) (auto simp: split_paired_all)

lemma count_sessions_concat:
  "count_sessions ss acc = count_items (concat (map data ss)) acc"
  by (induction ss arbitrary: acc) (simp_all add: count_items_append)

lemma sum_list_concat_map:
  "sum_list (map f (concat (map g ss))) = sum_list (map (\<lambda>s. sum_list (map f (g s))) ss)"
  by (induction ss) simp_all

lemma length_filter_concat:
  "length (filter P (concat (map g ss))) = sum_list (map (\<lambda>s. length (filter P (g s))) ss)"
  by (induction ss) simp_all

lemma count_sessions_labels:
  "snd (count_sessions ss ([], 0)) =
     sum_list (map (\<lambda>s. sum_list (map (\<lambda>m. length (get_labels m)) (data s))) ss)"
  by (simp add: count_sessions_concat count_items_labels sum_list_concat_map)

lemma count_sessions_senders:
  "map_of (fst (count_sessions ss ([], 0))) x =
     (if \<exists>s\<in>set ss. \<exists>m\<in>set (data s). sender m = x
      then Some (sum_list (map (\<lambda>s. length (filter (\<lambda>m. sender m = x) (data s))) ss))
      else None)"
  by (auto simp add: count_sessions_concat count_items_senders length_filter_concat Let_def)

text \<open>
  Division. The examples are the doubles that Python prints as \<^verbatim>\<open>0.5\<close>,
  \<^verbatim>\<open>0.3333333333333333\<close>, \<^verbatim>\<open>0.6666666666666666\<close>, \<^verbatim>\<open>0.1\<close>, \<^verbatim>\<open>3.5\<close>
  and \<^verbatim>\<open>2.0\<close>.
\<close>

lemma truediv_examples:
  "truediv 1 2 = Inr (1 / 2)"
  "truediv 1 3 = Inr (6004799503160661 / 18014398509481984)"
  "truediv 2 3 = Inr (6004799503160661 / 9007199254740992)"
  "truediv 1 10 = Inr (3602879701896397 / 36028797018963968)"
  "truediv 7 2 = Inr (7 / 2)"
  "truediv 6 3 = Inr 2"
  "truediv 2 1 = Inr 2"
  by (simp_all add: truediv_def round_to_multiple_def binary_exponent_def round_half_even_def
      compute_floorlog Let_def)

lemma round_half_even_error:
  assumes "0 < d"
  shows "\<bar>of_nat (round_half_even n d) - (of_nat n / of_nat d :: rat)\<bar> \<le> 1 / 2"
proof -
  define q r where "q = n div d" and "r = n mod d"
  have n: "n = q * d + r" and r: "r < d"
    using assms by (simp_all add: q_def r_def)
  have d: "(0::rat) < of_nat d" using assms by simp
  have x: "(of_nat n / of_nat d :: rat) = of_nat q + of_nat r / of_nat d"
    using d by (simp add: n field_simps)
  have frac: "(0::rat) \<le> of_nat r / of_nat d" "(of_nat r / of_nat d :: rat) < 1"
    using r d by simp_all
  consider "2 * r < d" | "d < 2 * r" | "2 * r = d" by linarith
  then show ?thesis
  proof cases
    case 1
    then have "(of_nat (2 * r) :: rat) < of_nat d" by (simp only: of_nat_less_iff)
    then have "(of_nat r / of_nat d :: rat) < 1 / 2" using d by (simp add: field_simps)
    moreover from 1 have "round_half_even n d = q"
      by (simp add: round_half_even_def q_def r_def Let_def)
    ultimately show ?thesis using frac by (simp add: x)
  next
    case 2
    then have "(of_nat d :: rat) < of_nat (2 * r)" by (simp only: of_nat_less_iff)
    then have "(1 / 2 :: rat) < of_nat r / of_nat d" using d by (simp add: field_simps)
    moreover from 2 have "round_half_even n d = q + 1"
      by (simp add: round_half_even_def q_def r_def Let_def)
    ultimately show ?thesis using frac by (simp add: x)
  next
    case 3
    then have "(of_nat (2 * r) :: rat) = of_nat d" by (simp only:)
    then have h: "(of_nat r / of_nat d :: rat) = 1 / 2" using d by (simp add: field_simps)
    from 3 have "round_half_even n d = q \<or> round_half_even n d = q + 1"
      by (simp add: round_half_even_def q_def r_def Let_def)
    then show ?thesis by (auto simp: x h)
  qed
qed


lemma round_to_multiple_error:
  assumes "0 < b"
  shows "\<bar>round_to_multiple a b u - of_nat a / of_nat b\<bar> \<le> 2 powi u / 2"
proof (cases "0 \<le> u")
  case True
  define k where "k = nat u"
  define m where "m = round_half_even a (b * 2 ^ k)"
  have u: "(2::rat) powi u = 2 ^ k"
    using True by (simp add: k_def power_int_nonneg_exp)
  have v: "round_to_multiple a b u = of_nat m * 2 ^ k"
    using True by (simp add: round_to_multiple_def m_def k_def)
  have "\<bar>of_nat m - (of_nat a / of_nat (b * 2 ^ k) :: rat)\<bar> \<le> 1 / 2"
    unfolding m_def using assms by (intro round_half_even_error) simp
  then have "\<bar>of_nat m - (of_nat a / of_nat (b * 2 ^ k) :: rat)\<bar> * 2 ^ k \<le> 1 / 2 * 2 ^ k"
    by (intro mult_right_mono) simp_all
  also have "\<bar>of_nat m - (of_nat a / of_nat (b * 2 ^ k) :: rat)\<bar> * 2 ^ k =
      \<bar>(of_nat m - (of_nat a / of_nat (b * 2 ^ k) :: rat)) * 2 ^ k\<bar>"
    by (simp add: abs_mult)
  also have "(of_nat m - (of_nat a / of_nat (b * 2 ^ k) :: rat)) * 2 ^ k =
      of_nat m * 2 ^ k - of_nat a / of_nat b"
    using assms by (simp add: field_simps)
  finally show ?thesis by (simp add: u v)
next
  case False
  define k where "k = nat (- u)"
  define m where "m = round_half_even (a * 2 ^ k) b"
  have u: "(2::rat) powi u = 1 / 2 ^ k"
    using False by (simp add: k_def power_int_def field_simps)
  have v: "round_to_multiple a b u = of_nat m / 2 ^ k"
    using False by (simp add: round_to_multiple_def m_def k_def)
  have "\<bar>of_nat m - (of_nat (a * 2 ^ k) / of_nat b :: rat)\<bar> \<le> 1 / 2"
    unfolding m_def using assms by (intro round_half_even_error)
  then have "\<bar>of_nat m - (of_nat (a * 2 ^ k) / of_nat b :: rat)\<bar> / 2 ^ k \<le> 1 / 2 / 2 ^ k"
    by (intro divide_right_mono) simp_all
  also have "\<bar>of_nat m - (of_nat (a * 2 ^ k) / of_nat b :: rat)\<bar> / 2 ^ k =
      \<bar>(of_nat m - (of_nat (a * 2 ^ k) / of_nat b :: rat)) / 2 ^ k\<bar>"
    by simp
  also have "(of_nat m - (of_nat (a * 2 ^ k) / of_nat b :: rat)) / 2 ^ k =
      of_nat m / 2 ^ k - of_nat a / of_nat b"
    using assms by (simp add: field_simps)
  finally show ?thesis by (simp add: u v)
qed

lemma binary_exponent_bounds:
  assumes "0 < a" and "0 < b"
  shows "2 powi binary_exponent a b \<le> (of_nat a / of_nat b :: rat)"
    and "binary_exponent a b < int (floorlog 2 a)"
    and "- int (floorlog 2 b) \<le> binary_exponent a b"
proof -
  define la lb where "la = floorlog 2 a" and "lb = floorlog 2 b"
  define d where "d = int la - int lb"
  have la: "2 ^ (la - 1) \<le> a" and la1: "1 \<le> la"
    using floorlog_bounds [of a 2] assms floorlog_eq_zero_iff [of 2 a]
    by (simp_all add: la_def Suc_le_eq)
  have lb: "b < 2 ^ lb" and lb1: "1 \<le> lb"
    using floorlog_bounds [of b 2] assms floorlog_eq_zero_iff [of 2 b]
    by (simp_all add: lb_def Suc_le_eq)
  have b: "(0::rat) < of_nat b" using assms by simp
  have e: "binary_exponent a b = d \<or> binary_exponent a b = d - 1"
    by (auto simp: binary_exponent_def Let_def d_def la_def lb_def)
  then show "binary_exponent a b < int (floorlog 2 a)"
    using lb1 by (auto simp: d_def la_def)
  from e show "- int (floorlog 2 b) \<le> binary_exponent a b"
    using la1 by (auto simp: d_def lb_def)
  have low: "(2::rat) powi (d - 1) \<le> of_nat a / of_nat b"
  proof -
    have "(of_nat b :: rat) \<le> of_nat (2 ^ lb)" using lb by (simp only: of_nat_le_iff less_imp_le)
    then have b2: "(of_nat b :: rat) \<le> 2 ^ lb" by simp
    have "(of_nat (2 ^ (la - 1)) :: rat) \<le> of_nat a" using la by (simp only: of_nat_le_iff)
    then have a2: "(2::rat) ^ (la - 1) \<le> of_nat a" by simp
    have "d - 1 = int (la - 1) - int lb" using la1 by (simp add: d_def)
    then have "(2::rat) powi (d - 1) = 2 ^ (la - 1) / 2 ^ lb"
      by (simp add: power_int_diff)
    also have "\<dots> \<le> of_nat a / 2 ^ lb" using a2 by (simp add: divide_right_mono)
    also have "\<dots> \<le> of_nat a / of_nat b" using b2 b by (simp add: divide_left_mono)
    finally show ?thesis .
  qed
  show "2 powi binary_exponent a b \<le> (of_nat a / of_nat b :: rat)"
  proof (cases "binary_exponent a b = d")
    case False
    with e low show ?thesis by simp
  next
    case True
    show ?thesis
    proof (cases "0 \<le> d")
      case nonneg: True
      with True have "b * 2 ^ nat d \<le> a"
        by (auto simp: binary_exponent_def Let_def d_def la_def lb_def split: if_splits)
      then have "(of_nat (b * 2 ^ nat d) :: rat) \<le> of_nat a" by (simp only: of_nat_le_iff)
      then have "(2::rat) ^ nat d \<le> of_nat a / of_nat b" using b by (simp add: field_simps)
      with nonneg True show ?thesis by (simp add: power_int_nonneg_exp)
    next
      case neg: False
      with True have "b \<le> a * 2 ^ nat (- d)"
        by (auto simp: binary_exponent_def Let_def d_def la_def lb_def split: if_splits)
      then have "(of_nat b :: rat) \<le> of_nat (a * 2 ^ nat (- d))" by (simp only: of_nat_le_iff)
      then have "(1::rat) / 2 ^ nat (- d) \<le> of_nat a / of_nat b" using b by (simp add: field_simps)
      with neg True show ?thesis by (simp add: power_int_def field_simps)
    qed
  qed
qed


lemma truediv_nearest:
  assumes "0 < b" and "a < 2 ^ 1023" and "b < 2 ^ 1022"
  shows "\<exists>v. truediv a b = Inr v \<and>
    \<bar>v - of_nat a / of_nat b\<bar> \<le> (of_nat a / of_nat b) / 2 ^ 53"
proof (cases "a = 0")
  case True
  with assms show ?thesis by (simp add: truediv_def)
next
  case False
  then have a: "0 < a" by simp
  define x :: rat where "x = of_nat a / of_nat b"
  define e where "e = binary_exponent a b"
  define v where "v = round_to_multiple a b (e - 52)"
  note e = binary_exponent_bounds [OF a assms(1), folded e_def x_def]
  have "floorlog 2 b \<le> 1022" using assms(3) by (intro floorlog_leI) simp_all
  with e(3) have low: "- 1074 \<le> e - 52" by simp
  have "floorlog 2 a \<le> 1023" using assms(2) by (intro floorlog_leI) simp_all
  have "\<bar>v - x\<bar> \<le> 2 powi (e - 52) / 2"
    unfolding v_def x_def by (rule round_to_multiple_error [OF assms(1)])
  also have "(2::rat) powi (e - 52) / 2 = 2 powi e / 2 ^ 53"
    by (simp add: power_int_diff)
  also have "\<dots> \<le> x / 2 ^ 53" using e(1) by (simp add: divide_right_mono)
  finally have near: "\<bar>v - x\<bar> \<le> x / 2 ^ 53" .
  have x0: "0 \<le> x" by (simp add: x_def)
  have "a \<le> a * b" using assms(1) by simp
  then have "(of_nat a :: rat) \<le> of_nat (a * b)" by (simp only: of_nat_le_iff)
  then have "x \<le> of_nat a" using assms(1) unfolding x_def by (simp add: field_simps)
  also have "(of_nat a :: rat) \<le> of_nat (2 ^ 1023 - 1)"
    using assms(2) by (simp only: of_nat_le_iff)
  finally have xa: "x \<le> 2 ^ 1023 - 1" by simp
  from near have "v \<le> x + x / 2 ^ 53" by linarith
  also have "\<dots> \<le> 2 * x" using x0 by simp
  also have "\<dots> \<le> 2 * (2 ^ 1023 - 1)" using xa by simp
  also have "\<dots> < 2 ^ 1024" by simp
  finally have "\<not> 2 ^ 1024 \<le> v" by simp
  moreover from low have "max (binary_exponent a b - 52) (- 1074) = binary_exponent a b - 52"
    by (simp add: e_def)
  ultimately have "truediv a b = Inr v"
    using False assms(1) by (simp add: truediv_def Let_def v_def e_def)
  with near show ?thesis unfolding x_def by blast
qed

lemma truediv_not_zero_division: "b \<noteq> 0 \<Longrightarrow> truediv a b \<noteq> Inl ZeroDivisionError"
  by (simp add: truediv_def Let_def)

text \<open>
  Claim C2. \<^verbatim>\<open>get_statistics\<close> never raises \<^verbatim>\<open>ZeroDivisionError\<close>. When the
  number of sessions and the total number of messages are below \<open>2 ^ 1022\<close> and the
  total number of labels is below \<open>2 ^ 1023\<close> (a Python list holds fewer than
  \<open>2 ^ 63\<close> items), it raises nothing and returns the number of sessions, the
  number of messages summed over the sessions, the number of labels summed over all
  messages, a dictionary that maps each sender that occurs to the number of its
  messages (and has no other key), the messages per session and the labels per message.
  Each average is 0 when its divisor is 0, and otherwise Python's quotient of the two
  totals: a double that differs from the exact quotient by at most the quotient
  divided by \<open>2 ^ 53\<close>.
  For one session of two messages, one with a single label and one with none, the
  totals are 2 messages and 1 label, and the labels per message are one half.
\<close>

theorem get_statistics_spec:
  "get_statistics self \<noteq> Inl ZeroDivisionError \<and>
   (length (sessions self) < 2 ^ 1022 \<and>
    sum_list (map (\<lambda>s. length (data s)) (sessions self)) < 2 ^ 1022 \<and>
    sum_list (map (\<lambda>s. sum_list (map (\<lambda>m. length (get_labels m)) (data s))) (sessions self))
      < 2 ^ 1023 \<longrightarrow>
    (\<exists>st. get_statistics self = Inr st \<and>
      total_sessions st = length (sessions self) \<and>
      total_messages st = sum_list (map (\<lambda>s. length (data s)) (sessions self)) \<and>
      total_labels st =
        sum_list (map (\<lambda>s. sum_list (map (\<lambda>m. length (get_labels m)) (data s))) (sessions self)) \<and>
      (\<forall>x. map_of (messages_by_sender st) x =
         (if \<exists>s\<in>set (sessions self). \<exists>m\<in>set (data s). sender m = x
          then Some (sum_list (map (\<lambda>s. length (filter (\<lambda>m. sender m = x) (data s)))
                                   (sessions self)))
          else None)) \<and>
      (if sessions self = [] then avg_messages_per_session st = 0
       else truediv (total_messages st) (total_sessions st) = Inr (avg_messages_per_session st) \<and>
            \<bar>avg_messages_per_session st - of_nat (total_messages st) / of_nat (total_sessions st)\<bar>
              \<le> of_nat (total_messages st) / of_nat (total_sessions st) / 2 ^ 53) \<and>
      (if total_messages st = 0 then avg_labels_per_message st = 0
       else truediv (total_labels st) (total_messages st) = Inr (avg_labels_per_message st) \<and>
            \<bar>avg_labels_per_message st - of_nat (total_labels st) / of_nat (total_messages st)\<bar>
              \<le> of_nat (total_labels st) / of_nat (total_messages st) / 2 ^ 53) \<and>
      (sessions self = [] \<longrightarrow>
         total_messages st = 0 \<and> total_labels st = 0 \<and> messages_by_sender st = [] \<and>
         avg_messages_per_session st = 0 \<and> avg_labels_per_message st = 0) \<and>
      (\<forall>s m1 m2. sessions self = [s] \<and> data s = [m1, m2] \<and>
         length (get_labels m1) = 1 \<and> get_labels m2 = [] \<longrightarrow>
         total_messages st = 2 \<and> total_labels st = 1 \<and> avg_labels_per_message st = 1 / 2)))"
proof (intro conjI impI)
  obtain senders tl where c: "count_sessions (sessions self) ([], 0) = (senders, tl)"
    by (cases "count_sessions (sessions self) ([], 0)")
  define n where "n = length (sessions self)"
  define tm where "tm = sum_list (map (\<lambda>s. length (data s)) (sessions self))"
  have n0: "sessions self \<noteq> [] \<longleftrightarrow> n \<noteq> 0" by (simp add: n_def)
  show "get_statistics self \<noteq> Inl ZeroDivisionError"
    using truediv_not_zero_division [of n tm] truediv_not_zero_division [of tm tl]
    by (auto simp: get_statistics_def c tm_def [symmetric] n_def [symmetric] n0
        split: sum.splits if_splits)
  assume small: "length (sessions self) < 2 ^ 1022 \<and>
    sum_list (map (\<lambda>s. length (data s)) (sessions self)) < 2 ^ 1022 \<and>
    sum_list (map (\<lambda>s. sum_list (map (\<lambda>m. length (get_labels m)) (data s))) (sessions self))
      < 2 ^ 1023"
  have tl: "tl = sum_list (map (\<lambda>s. sum_list (map (\<lambda>m. length (get_labels m)) (data s)))
      (sessions self))"
    using count_sessions_labels [of "sessions self"] c by simp
  have by_sender: "map_of senders x =
         (if \<exists>s\<in>set (sessions self). \<exists>m\<in>set (data s). sender m = x
          then Some (sum_list (map (\<lambda>s. length (filter (\<lambda>m. sender m = x) (data s)))
                                   (sessions self)))
          else None)" for x
    using count_sessions_senders [of "sessions self" x] c by simp
  from small have bounds: "n < 2 ^ 1022" "tm < 2 ^ 1022" "tm < 2 ^ 1023" "tl < 2 ^ 1023"
    by (simp_all add: n_def tm_def tl)
  obtain am where am: "(if sessions self \<noteq> [] then truediv tm n else Inr 0) = Inr am"
    and am_spec: "if n = 0 then am = 0
      else truediv tm n = Inr am \<and> \<bar>am - of_nat tm / of_nat n\<bar> \<le> of_nat tm / of_nat n / 2 ^ 53"
  proof (cases "n = 0")
    case True
    then show ?thesis using that [of 0] by (simp add: n0)
  next
    case False
    with truediv_nearest [of n tm] bounds obtain v where
      "truediv tm n = Inr v" "\<bar>v - of_nat tm / of_nat n\<bar> \<le> of_nat tm / of_nat n / 2 ^ 53"
      by auto
    with False show ?thesis using that [of v] by (simp add: n0)
  qed
  obtain al where al: "(if tm \<noteq> 0 then truediv tl tm else Inr 0) = Inr al"
    and al_spec: "if tm = 0 then al = 0
      else truediv tl tm = Inr al \<and> \<bar>al - of_nat tl / of_nat tm\<bar> \<le> of_nat tl / of_nat tm / 2 ^ 53"
  proof (cases "tm = 0")
    case True
    then show ?thesis using that [of 0] by simp
  next
    case False
    with truediv_nearest [of tm tl] bounds obtain v where
      "truediv tl tm = Inr v" "\<bar>v - of_nat tl / of_nat tm\<bar> \<le> of_nat tl / of_nat tm / 2 ^ 53"
      by auto
    with False show ?thesis using that [of v] by simp
  qed
  define st where "st = \<lparr>total_sessions = n, total_messages = tm,
      total_labels = tl, messages_by_sender = senders,
      avg_messages_per_session = am, avg_labels_per_message = al\<rparr>"
  have run: "get_statistics self = Inr st"
    by (simp only: get_statistics_def Let_def c prod.case tm_def [symmetric] n_def [symmetric]
        am al sum.case st_def)
  have empty: "senders = [] \<and> tl = 0 \<and> tm = 0 \<and> am = 0 \<and> al = 0" if "sessions self = []"
    using that c am_spec al_spec by (simp add: tm_def n_def)
  have scenario: "tm = 2 \<and> tl = 1 \<and> al = 1 / 2"
    if "sessions self = [s]" "data s = [m1, m2]" "length (get_labels m1) = 1" "get_labels m2 = []"
    for s m1 m2
  proof -
    from that tl have t: "tm = 2" "tl = 1" by (simp_all add: tm_def)
    with al_spec have "truediv 1 2 = Inr al" by simp
    then have "al = 1 / 2" by (simp only: truediv_examples sum.inject)
    with t show ?thesis by simp
  qed
  have f1: "total_sessions st = length (sessions self)" by (simp add: st_def n_def)
  have f2: "total_messages st = sum_list (map (\<lambda>s. length (data s)) (sessions self))"
    by (simp add: st_def tm_def)
  have f3: "total_labels st =
      sum_list (map (\<lambda>s. sum_list (map (\<lambda>m. length (get_labels m)) (data s))) (sessions self))"
    by (simp add: st_def tl)
  have f4: "\<forall>x. map_of (messages_by_sender st) x =
         (if \<exists>s\<in>set (sessions self). \<exists>m\<in>set (data s). sender m = x
          then Some (sum_list (map (\<lambda>s. length (filter (\<lambda>m. sender m = x) (data s)))
                                   (sessions self)))
          else None)"
    by (simp add: st_def by_sender)
  have f5: "if sessions self = [] then avg_messages_per_session st = 0
       else truediv (total_messages st) (total_sessions st) = Inr (avg_messages_per_session st) \<and>
            \<bar>avg_messages_per_session st - of_nat (total_messages st) / of_nat (total_sessions st)\<bar>
              \<le> of_nat (total_messages st) / of_nat (total_sessions st) / 2 ^ 53"
    using am_spec n0 by (simp add: st_def split: if_splits)
  have f6: "if total_messages st = 0 then avg_labels_per_message st = 0
       else truediv (total_labels st) (total_messages st) = Inr (avg_labels_per_message st) \<and>
            \<bar>avg_labels_per_message st - of_nat (total_labels st) / of_nat (total_messages st)\<bar>
              \<le> of_nat (total_labels st) / of_nat (total_messages st) / 2 ^ 53"
    using al_spec by (simp add: st_def split: if_splits)
  have f7: "sessions self = [] \<longrightarrow>
         total_messages st = 0 \<and> total_labels st = 0 \<and> messages_by_sender st = [] \<and>
         avg_messages_per_session st = 0 \<and> avg_labels_per_message st = 0"
    using empty by (simp add: st_def)
  have f8: "\<forall>s m1 m2. sessions self = [s] \<and> data s = [m1, m2] \<and>
         length (get_labels m1) = 1 \<and> get_labels m2 = [] \<longrightarrow>
         total_messages st = 2 \<and> total_labels st = 1 \<and> avg_labels_per_message st = 1 / 2"
    using scenario by (auto simp: st_def)
  show "\<exists>st. get_statistics self = Inr st \<and>
      total_sessions st = length (sessions self) \<and>
      total_messages st = sum_list (map (\<lambda>s. length (data s)) (sessions self)) \<and>
      total_labels st =
        sum_list (map (\<lambda>s. sum_list (map (\<lambda>m. length (get_labels m)) (data s))) (sessions self)) \<and>
      (\<forall>x. map_of (messages_by_sender st) x =
         (if \<exists>s\<in>set (sessions self). \<exists>m\<in>set (data s). sender m = x
          then Some (sum_list (map (\<lambda>s. length (filter (\<lambda>m. sender m = x) (data s)))
                                   (sessions self)))
          else None)) \<and>
      (if sessions self = [] then avg_messages_per_session st = 0
       else truediv (total_messages st) (total_sessions st) = Inr (avg_messages_per_session st) \<and>
            \<bar>avg_messages_per_session st - of_nat (total_messages st) / of_nat (total_sessions st)\<bar>
              \<le> of_nat (total_messages st) / of_nat (total_sessions st) / 2 ^ 53) \<and>
      (if total_messages st = 0 then avg_labels_per_message st = 0
       else truediv (total_labels st) (total_messages st) = Inr (avg_labels_per_message st) \<and>
            \<bar>avg_labels_per_message st - of_nat (total_labels st) / of_nat (total_messages st)\<bar>
              \<le> of_nat (total_labels st) / of_nat (total_messages st) / 2 ^ 53) \<and>
      (sessions self = [] \<longrightarrow>
         total_messages st = 0 \<and> total_labels st = 0 \<and> messages_by_sender st = [] \<and>
         avg_messages_per_session st = 0 \<and> avg_labels_per_message st = 0) \<and>
      (\<forall>s m1 m2. sessions self = [s] \<and> data s = [m1, m2] \<and>
         length (get_labels m1) = 1 \<and> get_labels m2 = [] \<longrightarrow>
         total_messages st = 2 \<and> total_labels st = 1 \<and> avg_labels_per_message st = 1 / 2)"
    by (rule exI [of _ st], intro conjI)
      (rule run, rule f1, rule f2, rule f3, rule f4, rule f5, rule f6, rule f7, rule f8)
qed

theorem get_statistics_spec_witness:
  "get_statistics ((init posix ''../data'')\<lparr>sessions := [example_s1]\<rparr>) \<noteq> Inl ZeroDivisionError \<and>
   (\<exists>st. get_statistics ((init posix ''../data'')\<lparr>sessions := [example_s1]\<rparr>) = Inr st \<and>
      total_sessions st = 1 \<and> total_messages st = 2 \<and> total_labels st = 1 \<and>
      map_of (messages_by_sender st) ''scientist'' = Some 1 \<and>
      map_of (messages_by_sender st) ''robot'' = Some 1 \<and>
      map_of (messages_by_sender st) ''operator'' = None \<and>
      avg_messages_per_session st = 2 \<and> avg_labels_per_message st = 1 / 2) \<and>
   (\<exists>st. get_statistics (init posix ''../data'') = Inr st \<and>
      total_sessions st = 0 \<and> total_messages st = 0 \<and> total_labels st = 0 \<and>
      avg_messages_per_session st = 0 \<and> avg_labels_per_message st = 0)"
proof (intro conjI)
  let ?d = "(init posix ''../data'')\<lparr>sessions := [example_s1]\<rparr>"
  show "get_statistics ?d \<noteq> Inl ZeroDivisionError"
    by (rule get_statistics_spec [THEN conjunct1])
  have small: "length (sessions ?d) < 2 ^ 1022 \<and>
    sum_list (map (\<lambda>s. length (data s)) (sessions ?d)) < 2 ^ 1022 \<and>
    sum_list (map (\<lambda>s. sum_list (map (\<lambda>m. length (get_labels m)) (data s))) (sessions ?d))
      < 2 ^ 1023"
    by (simp add: example_s1_def get_labels_def)
  from get_statistics_spec [of ?d, THEN conjunct2, rule_format, OF small]
  obtain st where st: "get_statistics ?d = Inr st"
    "total_sessions st = length (sessions ?d)"
    "total_messages st = sum_list (map (\<lambda>s. length (data s)) (sessions ?d))"
    "\<forall>x. map_of (messages_by_sender st) x =
         (if \<exists>s\<in>set (sessions ?d). \<exists>m\<in>set (data s). sender m = x
          then Some (sum_list (map (\<lambda>s. length (filter (\<lambda>m. sender m = x) (data s)))
                                   (sessions ?d)))
          else None)"
    "if sessions ?d = [] then avg_messages_per_session st = 0
       else truediv (total_messages st) (total_sessions st) = Inr (avg_messages_per_session st) \<and>
            \<bar>avg_messages_per_session st - of_nat (total_messages st) / of_nat (total_sessions st)\<bar>
              \<le> of_nat (total_messages st) / of_nat (total_sessions st) / 2 ^ 53"
    "\<forall>s m1 m2. sessions ?d = [s] \<and> data s = [m1, m2] \<and>
         length (get_labels m1) = 1 \<and> get_labels m2 = [] \<longrightarrow>
         total_messages st = 2 \<and> total_labels st = 1 \<and> avg_labels_per_message st = 1 / 2"
    by (elim exE conjE)
  have "sessions ?d = [example_s1] \<and> data example_s1 = [hd (data example_s1), last (data example_s1)]
      \<and> length (get_labels (hd (data example_s1))) = 1 \<and> get_labels (last (data example_s1)) = []"
    by (simp add: example_s1_def get_labels_def)
  with st(6) have totals: "total_messages st = 2 \<and> total_labels st = 1 \<and>
      avg_labels_per_message st = 1 / 2"
    by blast
  have sessions: "total_sessions st = 1"
    using st(2) by simp
  from st(5) totals sessions have "truediv 2 1 = Inr (avg_messages_per_session st)"
    by simp
  then have avg: "avg_messages_per_session st = 2"
    by (simp only: truediv_examples sum.inject)
  have senders: "map_of (messages_by_sender st) ''scientist'' = Some 1"
    "map_of (messages_by_sender st) ''robot'' = Some 1"
    "map_of (messages_by_sender st) ''operator'' = None"
    using st(4) by (simp_all add: example_s1_def)
  from st(1) totals sessions avg senders
  show "\<exists>st. get_statistics ?d = Inr st \<and>
      total_sessions st = 1 \<and> total_messages st = 2 \<and> total_labels st = 1 \<and>
      map_of (messages_by_sender st) ''scientist'' = Some 1 \<and>
      map_of (messages_by_sender st) ''robot'' = Some 1 \<and>
      map_of (messages_by_sender st) ''operator'' = None \<and>
      avg_messages_per_session st = 2 \<and> avg_labels_per_message st = 1 / 2"
    by (intro exI [of _ st]) simp
next
  let ?d = "init posix ''../data''"
  have none: "sessions ?d = []" by (simp add: init_def)
  have small: "length (sessions ?d) < 2 ^ 1022 \<and>
    sum_list (map (\<lambda>s. length (data s)) (sessions ?d)) < 2 ^ 1022 \<and>
    sum_list (map (\<lambda>s. sum_list (map (\<lambda>m. length (get_labels m)) (data s))) (sessions ?d))
      < 2 ^ 1023"
    by (simp add: none)
  from get_statistics_spec [of ?d, THEN conjunct2, rule_format, OF small]
  obtain st where
    "get_statistics ?d = Inr st"
    "total_sessions st = length (sessions ?d)"
    "sessions ?d = [] \<longrightarrow>
         total_messages st = 0 \<and> total_labels st = 0 \<and> messages_by_sender st = [] \<and>
         avg_messages_per_session st = 0 \<and> avg_labels_per_message st = 0"
    by (elim exE conjE)
  with none show "\<exists>st. get_statistics ?d = Inr st \<and>
      total_sessions st = 0 \<and> total_messages st = 0 \<and> total_labels st = 0 \<and>
      avg_messages_per_session st = 0 \<and> avg_labels_per_message st = 0"
    by (intro exI [of _ st]) simp
qed

section \<open>Properties of the filters\<close>

lemma sessions_append_length [simp]: "length (sessions_append a s st) = length st"
  by (simp add: sessions_append_def)

lemma sessions_append_twice:
  "a < length st \<Longrightarrow>
   sessions_append a s (st[a := (st ! a)\<lparr>sessions := sessions (st ! a) @ xs\<rparr>]) =
   st[a := (st ! a)\<lparr>sessions := sessions (st ! a) @ xs @ [s]\<rparr>]"
  by (simp add: sessions_append_def)

lemma filter_by_sender_loop_spec:
  "filtered < length st \<Longrightarrow>
   filter_by_sender_loop S filtered ss (st[filtered := (st ! filtered)\<lparr>sessions := sessions (st ! filtered) @ acc\<rparr>]) =
   st[filtered := (st ! filtered)\<lparr>sessions := sessions (st ! filtered) @ acc @
     map (\<lambda>s. \<lparr>session_id = session_id s, data = filter (\<lambda>m. sender m = S) (data s),
                 info = info s\<rparr>)
       (filter (\<lambda>s. \<exists>m\<in>set (data s). sender m = S) ss)\<rparr>]"
proof (induction ss arbitrary: acc)
  case Nil
  then show ?case by simp
next
  case (Cons s ss)
  have ne: "filter (\<lambda>m. sender m = S) (data s) \<noteq> [] \<longleftrightarrow> (\<exists>m\<in>set (data s). sender m = S)"
    by (simp add: filter_empty_conv)
  show ?case
  proof (cases "\<exists>m\<in>set (data s). sender m = S")
    case True
    with ne have "filter (\<lambda>m. sender m = S) (data s) \<noteq> []" by simp
    with True Cons.prems show ?thesis
      using Cons.IH [OF Cons.prems, of "acc @ [\<lparr>session_id = session_id s,
        data = filter (\<lambda>m. sender m = S) (data s), info = info s\<rparr>]"]
      by (simp add: sessions_append_twice Let_def)
  next
    case False
    with ne have "filter (\<lambda>m. sender m = S) (data s) = []" by simp
    with False Cons.prems show ?thesis
      using Cons.IH [OF Cons.prems, of acc] by (simp add: Let_def)
  qed
qed

lemma filter_by_sender_result:
  "filter_by_sender lib st self S =
     (length st,
      st @ [(init lib (str lib (data_dir (st ! self))))\<lparr>sessions :=
        map (\<lambda>s. \<lparr>session_id = session_id s, data = filter (\<lambda>m. sender m = S) (data s),
                    info = info s\<rparr>)
          (filter (\<lambda>s. \<exists>m\<in>set (data s). sender m = S) (sessions ((st @ [init lib (str lib (data_dir (st ! self)))]) ! self)))\<rparr>])"
proof -
  let ?st1 = "st @ [init lib (str lib (data_dir (st ! self)))]"
  have "?st1 = ?st1[length st := (?st1 ! length st)\<lparr>sessions := sessions (?st1 ! length st) @ []\<rparr>]"
    by simp
  then have "filter_by_sender_loop S (length st) ss ?st1 =
    ?st1[length st := (?st1 ! length st)\<lparr>sessions := sessions (?st1 ! length st) @ [] @
     map (\<lambda>s. \<lparr>session_id = session_id s, data = filter (\<lambda>m. sender m = S) (data s),
                 info = info s\<rparr>)
       (filter (\<lambda>s. \<exists>m\<in>set (data s). sender m = S) ss)\<rparr>]" for ss
    using filter_by_sender_loop_spec [of "length st" ?st1 S ss "[]"] by simp
  then show ?thesis
    by (simp add: filter_by_sender_def new_instance_def init_def)
qed


lemma labelled_items_spec:
  "labelled_items lt items fd =
     fd @ filter (\<lambda>m. case lt of None \<Rightarrow> get_labels m \<noteq> []
                         | Some t \<Rightarrow> \<exists>l\<in>set (get_labels m). label_type l = t) items"
proof (induction items arbitrary: fd)
  case Nil
  then show ?case by simp
next
  case (Cons m items)
  show ?case
  proof (cases lt)
    case None
    with Cons.IH show ?thesis by (simp add: Let_def)
  next
    case (Some t)
    with Cons.IH show ?thesis by (auto simp add: Let_def list_ex_iff)
  qed
qed

lemma filter_by_labels_loop_spec:
  "filtered < length st \<Longrightarrow>
   filter_by_labels_loop lt filtered ss (st[filtered := (st ! filtered)\<lparr>sessions := sessions (st ! filtered) @ acc\<rparr>]) =
   st[filtered := (st ! filtered)\<lparr>sessions := sessions (st ! filtered) @ acc @
     map (\<lambda>s. \<lparr>session_id = session_id s, data = labelled_items lt (data s) [],
                 info = info s\<rparr>)
       (filter (\<lambda>s. labelled_items lt (data s) [] \<noteq> []) ss)\<rparr>]"
proof (induction ss arbitrary: acc)
  case Nil
  then show ?case by simp
next
  case (Cons s ss)
  show ?case
  proof (cases "labelled_items lt (data s) [] \<noteq> []")
    case True
    with Cons.prems show ?thesis
      using Cons.IH [OF Cons.prems, of "acc @ [\<lparr>session_id = session_id s,
        data = labelled_items lt (data s) [], info = info s\<rparr>]"]
      by (simp add: sessions_append_twice Let_def)
  next
    case False
    with Cons.prems show ?thesis
      using Cons.IH [OF Cons.prems, of acc] by (simp add: Let_def)
  qed
qed

lemma filter_by_labels_result:
  "filter_by_labels lib st self lt =
     (length st,
      st @ [(init lib (str lib (data_dir (st ! self))))\<lparr>sessions :=
        map (\<lambda>s. \<lparr>session_id = session_id s, data = labelled_items lt (data s) [],
                    info = info s\<rparr>)
          (filter (\<lambda>s. labelled_items lt (data s) [] \<noteq> [])
             (sessions ((st @ [init lib (str lib (data_dir (st ! self)))]) ! self)))\<rparr>])"
proof -
  let ?st1 = "st @ [init lib (str lib (data_dir (st ! self)))]"
  have "?st1 = ?st1[length st := (?st1 ! length st)\<lparr>sessions := sessions (?st1 ! length st) @ []\<rparr>]"
    by simp
  then have "filter_by_labels_loop lt (length st) ss ?st1 =
    ?st1[length st := (?st1 ! length st)\<lparr>sessions := sessions (?st1 ! length st) @ [] @
     map (\<lambda>s. \<lparr>session_id = session_id s, data = labelled_items lt (data s) [],
                 info = info s\<rparr>)
       (filter (\<lambda>s. labelled_items lt (data s) [] \<noteq> []) ss)\<rparr>]" for ss
    using filter_by_labels_loop_spec [of "length st" ?st1 lt ss "[]"] by simp
  then show ?thesis
    by (simp add: filter_by_labels_def new_instance_def init_def)
qed

text \<open>
  Claim C4. Called on a live instance without a label type, \<^verbatim>\<open>filter_by_labels\<close>
  keeps exactly the messages that have at least one label; called with the label type
  \<open>T\<close> it keeps exactly the messages that have a label whose \<^verbatim>\<open>label_type\<close> is
  \<open>T\<close>. Sessions keep their order, \<^verbatim>\<open>session_id\<close> and \<^verbatim>\<open>info\<close>, and a session
  in which no message matches is left out: every session of the result has a message,
  and every message of the result has a label (of type \<open>T\<close>, when \<open>T\<close> is given).
\<close>

theorem filter_by_labels_spec:
  assumes "self < length st" and "filter_by_labels lib st self lt = (filtered, st')"
  shows "filtered = length st \<and> length st' = Suc (length st) \<and>
    (lt = None \<longrightarrow>
       sessions (st' ! filtered) =
         map (\<lambda>s. \<lparr>session_id = session_id s,
                     data = filter (\<lambda>m. get_labels m \<noteq> []) (data s), info = info s\<rparr>)
           (filter (\<lambda>s. \<exists>m\<in>set (data s). get_labels m \<noteq> []) (sessions (st ! self)))) \<and>
    (\<forall>T. lt = Some T \<longrightarrow>
       sessions (st' ! filtered) =
         map (\<lambda>s. \<lparr>session_id = session_id s,
                     data = filter (\<lambda>m. \<exists>l\<in>set (get_labels m). label_type l = T) (data s),
                     info = info s\<rparr>)
           (filter (\<lambda>s. \<exists>m\<in>set (data s). \<exists>l\<in>set (get_labels m). label_type l = T)
              (sessions (st ! self)))) \<and>
    (\<forall>s\<in>set (sessions (st' ! filtered)). data s \<noteq> [] \<and>
       (\<forall>m\<in>set (data s). get_labels m \<noteq> [] \<and>
          (\<forall>T. lt = Some T \<longrightarrow> (\<exists>l\<in>set (get_labels m). label_type l = T))))"
proof -
  from assms(1) have self: "(st @ [init lib (str lib (data_dir (st ! self)))]) ! self = st ! self"
    by (simp add: nth_append)
  from assms(2) have f: "filtered = length st"
    and st': "st' = st @ [(init lib (str lib (data_dir (st ! self))))\<lparr>sessions :=
        map (\<lambda>s. \<lparr>session_id = session_id s, data = labelled_items lt (data s) [],
                    info = info s\<rparr>)
          (filter (\<lambda>s. labelled_items lt (data s) [] \<noteq> []) (sessions (st ! self)))\<rparr>]"
    unfolding filter_by_labels_result self by simp_all
  have held: "sessions (st' ! filtered) =
        map (\<lambda>s. \<lparr>session_id = session_id s, data = labelled_items lt (data s) [],
                    info = info s\<rparr>)
          (filter (\<lambda>s. labelled_items lt (data s) [] \<noteq> []) (sessions (st ! self)))"
    by (simp add: f st')
  have any: ?thesis if "lt = None"
    using that f st' held
    by (auto simp: labelled_items_spec filter_empty_conv)
  have typed: ?thesis if "lt = Some T" for T
    using that f st' held
    by (auto simp: labelled_items_spec filter_empty_conv)
  from any typed show ?thesis by (cases lt) blast+
qed


lemma to_dataframe_ok:
  assumes "\<forall>s\<in>set (sessions self). \<forall>m\<in>set (data s). td (timestamp m) \<noteq> None"
  shows "\<exists>rows. to_dataframe td self = Inr rows \<and>
     map Inr rows = map (\<lambda>(sid, m). make_row td sid m)
       (concat (map (\<lambda>s. map (Pair (session_id s)) (data s)) (sessions self)))"
  using session_rows_ok [OF assms, of "[]"]
  by (simp add: to_dataframe_def concat_pairs [of "make_row td"])

lemma to_dataframe_Inr_parsed:
  assumes "to_dataframe td self = Inr rows"
  shows "\<forall>s\<in>set (sessions self). \<forall>m\<in>set (data s). td (timestamp m) \<noteq> None"
  using assms to_dataframe_fails [of _ self _ td] by fastforce

lemma rows_filter_sender:
  "map Inr rows = map (\<lambda>(sid, m). make_row td sid m) ps \<Longrightarrow>
   map Inr (filter (\<lambda>r. column ''sender'' r = Some (Val (JStr S))) rows) =
   map (\<lambda>(sid, m). make_row td sid m) (filter (\<lambda>(sid, m). sender m = S) ps)"
proof (induction rows arbitrary: ps)
  case Nil
  then show ?case by simp
next
  case (Cons r rows)
  then obtain sid m ps' where ps: "ps = (sid, m) # ps'" by (cases ps) auto
  with Cons.prems have r: "make_row td sid m = Inr r"
    and rest: "map Inr rows = map (\<lambda>(sid, m). make_row td sid m) ps'" by simp_all
  from make_row_fixed_columns(4) [OF r] Cons.IH [OF rest] ps r show ?case by simp
qed

lemma pairs_filter_sender:
  "concat (map (\<lambda>s. map (Pair (session_id s)) (data s))
     (map (\<lambda>s. \<lparr>session_id = session_id s, data = filter (\<lambda>m. sender m = S) (data s),
                 info = info s\<rparr>)
       (filter (\<lambda>s. \<exists>m\<in>set (data s). sender m = S) ss))) =
   filter (\<lambda>(sid, m). sender m = S) (concat (map (\<lambda>s. map (Pair (session_id s)) (data s)) ss))"
proof (induction ss)
  case Nil
  then show ?case by simp
next
  case (Cons s ss)
  have "filter (\<lambda>(sid, m). sender m = S) (map (Pair (session_id s)) (data s)) =
        map (Pair (session_id s)) (filter (\<lambda>m. sender m = S) (data s))"
    by (simp add: filter_map comp_def)
  moreover have "\<not> (\<exists>m\<in>set (data s). sender m = S) \<Longrightarrow> filter (\<lambda>m. sender m = S) (data s) = []"
    by (simp add: filter_empty_conv)
  ultimately show ?case using Cons.IH by auto
qed

text \<open>
  Claim C3. Called on a live instance, \<^verbatim>\<open>filter_by_sender(S)\<close> returns a new
  instance (the next free address). Its sessions are, for each session of the original
  that has a message whose sender is \<open>S\<close>, in the original order, a session with the
  same \<^verbatim>\<open>session_id\<close> and \<^verbatim>\<open>info\<close> and exactly the messages whose sender is
  \<open>S\<close>; no session of the result is empty. Every row of a tabular projection of
  the result has \<open>S\<close> in its \<^verbatim>\<open>sender\<close> column. When the original has a
  tabular projection, so has the result: its rows are the rows of the original
  projection whose \<^verbatim>\<open>sender\<close> column is \<open>S\<close>, so there are as many rows as a
  scan of the original projection for that sender finds.
\<close>

theorem filter_by_sender_spec:
  fixes to_datetime :: "string \<Rightarrow> 'ts option"
  assumes "self < length st" and "filter_by_sender lib st self S = (filtered, st')"
  shows "filtered = length st \<and> length st' = Suc (length st) \<and>
    sessions (st' ! filtered) =
      map (\<lambda>s. \<lparr>session_id = session_id s, data = filter (\<lambda>m. sender m = S) (data s),
                  info = info s\<rparr>)
        (filter (\<lambda>s. \<exists>m\<in>set (data s). sender m = S) (sessions (st ! self))) \<and>
    (\<forall>s\<in>set (sessions (st' ! filtered)). data s \<noteq> []) \<and>
    (\<forall>rows'. to_dataframe to_datetime (st' ! filtered) = Inr rows' \<longrightarrow>
       (\<forall>r\<in>set rows'. column ''sender'' r = Some (Val (JStr S)))) \<and>
    (\<forall>rows. to_dataframe to_datetime (st ! self) = Inr rows \<longrightarrow>
       (\<exists>rows'. to_dataframe to_datetime (st' ! filtered) = Inr rows' \<and>
          (\<forall>r\<in>set rows'. column ''sender'' r = Some (Val (JStr S))) \<and>
          length rows' = length (filter (\<lambda>r. column ''sender'' r = Some (Val (JStr S))) rows) \<and>
          rows' = filter (\<lambda>r. column ''sender'' r = Some (Val (JStr S))) rows))"
proof -
  let ?keep = "map (\<lambda>s. \<lparr>session_id = session_id s, data = filter (\<lambda>m. sender m = S) (data s),
                  info = info s\<rparr>)
        (filter (\<lambda>s. \<exists>m\<in>set (data s). sender m = S) (sessions (st ! self)))"
  let ?is_S = "\<lambda>r::'ts row. column ''sender'' r = Some (Val (JStr S))"
  from assms(1) have self: "(st @ [init lib (str lib (data_dir (st ! self)))]) ! self = st ! self"
    by (simp add: nth_append)
  from assms(2) have f: "filtered = length st"
    and st': "st' = st @ [(init lib (str lib (data_dir (st ! self))))\<lparr>sessions := ?keep\<rparr>]"
    unfolding filter_by_sender_result self by simp_all
  have held: "sessions (st' ! filtered) = ?keep"
    by (simp add: f st')
  have nonempty: "\<forall>s\<in>set (sessions (st' ! filtered)). data s \<noteq> []"
    unfolding held by (auto simp: filter_empty_conv)
  have only_S: "\<forall>r\<in>set rows'. ?is_S r"
    if rows': "to_dataframe to_datetime (st' ! filtered) = Inr rows'" for rows'
  proof -
    from to_dataframe_ok [OF to_dataframe_Inr_parsed [OF rows']] rows'
    have each': "map Inr rows' = map (\<lambda>(sid, m). make_row to_datetime sid m)
       (concat (map (\<lambda>s. map (Pair (session_id s)) (data s)) (sessions (st' ! filtered))))"
      by simp
    have "map Inr (filter ?is_S rows') = (map Inr rows' :: (error + 'ts row) list)"
      unfolding rows_filter_sender [OF each'] each' held pairs_filter_sender by simp
    then have "filter ?is_S rows' = rows'"
      by (simp add: inj_map_eq_map)
    then show ?thesis by (simp add: filter_id_conv)
  qed
  have proj: "\<exists>rows'. to_dataframe to_datetime (st' ! filtered) = Inr rows' \<and>
          (\<forall>r\<in>set rows'. ?is_S r) \<and> length rows' = length (filter ?is_S rows) \<and>
          rows' = filter ?is_S rows"
    if rows: "to_dataframe to_datetime (st ! self) = Inr rows" for rows
  proof -
    from to_dataframe_Inr_parsed [OF rows]
    have parsed: "\<forall>s\<in>set (sessions (st ! self)). \<forall>m\<in>set (data s). to_datetime (timestamp m) \<noteq> None" .
    then have "\<forall>s\<in>set (sessions (st' ! filtered)). \<forall>m\<in>set (data s). to_datetime (timestamp m) \<noteq> None"
      unfolding held by auto
    from to_dataframe_ok [OF this] obtain rows' where
      rows': "to_dataframe to_datetime (st' ! filtered) = Inr rows'"
      and each': "map Inr rows' = map (\<lambda>(sid, m). make_row to_datetime sid m)
       (concat (map (\<lambda>s. map (Pair (session_id s)) (data s)) (sessions (st' ! filtered))))"
      by blast
    from to_dataframe_ok [OF parsed] rows have each: "map Inr rows =
      map (\<lambda>(sid, m). make_row to_datetime sid m)
       (concat (map (\<lambda>s. map (Pair (session_id s)) (data s)) (sessions (st ! self))))"
      by simp
    have "map Inr rows' = (map Inr (filter ?is_S rows) :: (error + 'ts row) list)"
      unfolding each' held pairs_filter_sender rows_filter_sender [OF each] ..
    then have eq: "rows' = filter ?is_S rows"
      by (simp add: inj_map_eq_map)
    with rows' show ?thesis by simp
  qed
  from only_S have sender_S: "\<forall>rows'. to_dataframe to_datetime (st' ! filtered) = Inr rows' \<longrightarrow>
       (\<forall>r\<in>set rows'. ?is_S r)"
    by blast
  from proj have scan: "\<forall>rows. to_dataframe to_datetime (st ! self) = Inr rows \<longrightarrow>
       (\<exists>rows'. to_dataframe to_datetime (st' ! filtered) = Inr rows' \<and>
          (\<forall>r\<in>set rows'. ?is_S r) \<and> length rows' = length (filter ?is_S rows) \<and>
          rows' = filter ?is_S rows)"
    by blast
  have fresh: "length st' = Suc (length st)"
    by (simp add: st')
  show ?thesis
    by (intro conjI) (rule f, rule fresh, rule held, rule nonempty, rule sender_S, rule scan)
qed


lemma example_rows:
  "to_dataframe Some example_dataset = Inr
    [[(''session_id'', Val (JStr ''s1'')), (''message_id'', Val (JInt 1)),
      (''command'', Val (JStr ''pick up the cube'')),
      (''sender'', Val (JStr ''scientist'')),
      (''timestamp'', Timestamp ''2024-01-01T10:00:00''),
      (''video_frame_id'', Val (JStr ''frame_1'')),
      (''label_count'', Val (JInt 1)),
      (''label_quality'', Val (JStr ''good''))],
     [(''session_id'', Val (JStr ''s1'')), (''message_id'', Val (JInt 2)),
      (''command'', Val (JStr ''done'')), (''sender'', Val (JStr ''robot'')),
      (''timestamp'', Timestamp ''2024-01-01T10:00:05''),
      (''video_frame_id'', Val JNull), (''label_count'', Val (JInt 0))],
     [(''session_id'', Val (JStr ''s3'')), (''message_id'', Val (JInt 1)),
      (''command'', Val (JStr ''open the gripper'')),
      (''sender'', Val (JStr ''scientist'')),
      (''timestamp'', Timestamp ''2024-01-02T09:00:00''),
      (''video_frame_id'', Val JNull), (''label_count'', Val (JInt 2)),
      (''label_quality'', Val (JStr ''good''))]]"
  by (simp add: to_dataframe_def example_dataset_def example_s1_def example_s3_def init_def
      make_row_def get_labels_def)

theorem filter_by_sender_spec_witness:
  "fst (filter_by_sender posix [example_dataset] 0 ''robot'') = 1 \<and>
   sessions (snd (filter_by_sender posix [example_dataset] 0 ''robot'') ! 1) =
     [\<lparr>session_id = ''s1'',
       data = [\<lparr>id_msg = JInt 2, command = ''done'', sender = ''robot'',
                timestamp = ''2024-01-01T10:00:05'', video_frame_id = None, labels = None\<rparr>],
       info = JObj [(''robot'', JStr ''arm'')]\<rparr>] \<and>
   (\<exists>rows'. to_dataframe Some (snd (filter_by_sender posix [example_dataset] 0 ''robot'') ! 1) = Inr rows' \<and>
      map (column ''sender'') rows' = [Some (Val (JStr ''robot''))] \<and>
      map (column ''message_id'') rows' = [Some (Val (JInt 2))])"
proof -
  let ?r = "filter_by_sender posix [example_dataset] 0 ''robot''"
  let ?rows = "[[(''session_id'', Val (JStr ''s1'')), (''message_id'', Val (JInt 1)),
      (''command'', Val (JStr ''pick up the cube'')),
      (''sender'', Val (JStr ''scientist'')),
      (''timestamp'', Timestamp ''2024-01-01T10:00:00''),
      (''video_frame_id'', Val (JStr ''frame_1'')),
      (''label_count'', Val (JInt 1)),
      (''label_quality'', Val (JStr ''good''))],
     [(''session_id'', Val (JStr ''s1'')), (''message_id'', Val (JInt 2)),
      (''command'', Val (JStr ''done'')), (''sender'', Val (JStr ''robot'')),
      (''timestamp'', Timestamp ''2024-01-01T10:00:05''),
      (''video_frame_id'', Val JNull), (''label_count'', Val (JInt 0))],
     [(''session_id'', Val (JStr ''s3'')), (''message_id'', Val (JInt 1)),
      (''command'', Val (JStr ''open the gripper'')),
      (''sender'', Val (JStr ''scientist'')),
      (''timestamp'', Timestamp ''2024-01-02T09:00:00''),
      (''video_frame_id'', Val JNull), (''label_count'', Val (JInt 2)),
      (''label_quality'', Val (JStr ''good''))]]"
  have live: "0 < length [example_dataset]" by simp
  have call: "?r = (fst ?r, snd ?r)" by simp
  note spec = filter_by_sender_spec [OF live call, where to_datetime = Some]
  from spec [THEN conjunct1] have new: "fst ?r = 1" by simp
  from spec [THEN conjunct2, THEN conjunct2, THEN conjunct1]
  have "sessions (snd ?r ! fst ?r) =
      map (\<lambda>s. \<lparr>session_id = session_id s, data = filter (\<lambda>m. sender m = ''robot'') (data s),
                  info = info s\<rparr>)
        (filter (\<lambda>s. \<exists>m\<in>set (data s). sender m = ''robot'') (sessions ([example_dataset] ! 0)))" .
  then have held: "sessions (snd ?r ! 1) =
     [\<lparr>session_id = ''s1'',
       data = [\<lparr>id_msg = JInt 2, command = ''done'', sender = ''robot'',
                timestamp = ''2024-01-01T10:00:05'', video_frame_id = None, labels = None\<rparr>],
       info = JObj [(''robot'', JStr ''arm'')]\<rparr>]"
    unfolding new by (simp add: example_dataset_def example_s1_def example_s3_def)
  have original: "to_dataframe Some ([example_dataset] ! 0) = Inr ?rows"
    using example_rows by simp
  from spec [THEN conjunct2, THEN conjunct2, THEN conjunct2, THEN conjunct2, THEN conjunct2,
      rule_format, OF original]
  obtain rows' where
    "to_dataframe Some (snd ?r ! fst ?r) = Inr rows'"
    "rows' = filter (\<lambda>r. column ''sender'' r = Some (Val (JStr ''robot''))) ?rows"
    by blast
  then have "to_dataframe Some (snd ?r ! 1) = Inr rows' \<and>
      map (column ''sender'') rows' = [Some (Val (JStr ''robot''))] \<and>
      map (column ''message_id'') rows' = [Some (Val (JInt 2))]"
    unfolding new by (simp add: column_def)
  then have "\<exists>rows'. to_dataframe Some (snd ?r ! 1) = Inr rows' \<and>
      map (column ''sender'') rows' = [Some (Val (JStr ''robot''))] \<and>
      map (column ''message_id'') rows' = [Some (Val (JInt 2))]" ..
  with new held show ?thesis by (intro conjI)
qed

theorem filter_by_labels_spec_witness:
  "fst (filter_by_labels posix [example_dataset] 0 None) = 1 \<and>
   map (\<lambda>s. (session_id s, map id_msg (data s)))
     (sessions (snd (filter_by_labels posix [example_dataset] 0 None) ! 1)) =
     [(''s1'', [JInt 1]), (''s3'', [JInt 1])] \<and>
   map (\<lambda>s. (session_id s, map id_msg (data s)))
     (sessions (snd (filter_by_labels posix [example_dataset] 0 (Some ''quality'')) ! 1)) =
     [(''s1'', [JInt 1]), (''s3'', [JInt 1])] \<and>
   sessions (snd (filter_by_labels posix [example_dataset] 0 (Some ''safety'')) ! 1) = []"
proof -
  have live: "0 < length [example_dataset]" by simp
  have call: "filter_by_labels posix [example_dataset] 0 lt =
      (fst (filter_by_labels posix [example_dataset] 0 lt), snd (filter_by_labels posix [example_dataset] 0 lt))"
    for lt by simp
  note spec = filter_by_labels_spec [OF live call]
  from spec [of None] have new: "fst (filter_by_labels posix [example_dataset] 0 None) = 1"
    by simp
  from spec [of None] have any: "sessions (snd (filter_by_labels posix [example_dataset] 0 None) ! 1) =
         map (\<lambda>s. \<lparr>session_id = session_id s,
                     data = filter (\<lambda>m. get_labels m \<noteq> []) (data s), info = info s\<rparr>)
           (filter (\<lambda>s. \<exists>m\<in>set (data s). get_labels m \<noteq> []) (sessions ([example_dataset] ! 0)))"
    unfolding new by blast
  have typed: "sessions (snd (filter_by_labels posix [example_dataset] 0 (Some T)) ! 1) =
         map (\<lambda>s. \<lparr>session_id = session_id s,
                     data = filter (\<lambda>m. \<exists>l\<in>set (get_labels m). label_type l = T) (data s),
                     info = info s\<rparr>)
           (filter (\<lambda>s. \<exists>m\<in>set (data s). \<exists>l\<in>set (get_labels m). label_type l = T)
              (sessions ([example_dataset] ! 0)))" for T
    using spec [of "Some T"] by auto
  show ?thesis
    unfolding any typed new Bex_set
    by (simp add: example_dataset_def example_s1_def example_s3_def get_labels_def)
qed

text \<open>
  Claim C5. Both filters return an address that was not in use before the call, and
  they leave every instance that existed before the call as it was; in particular the
  sessions of the original (identifiers, messages and info) are the same after the call
  as before. The two instances do not share their list: appending a session to the
  result leaves the original as it was before the call, and appending to the original
  leaves the result as the call returned it. (The message and info values of the result
  are the original's own; no method of the class writes to them.)
\<close>

theorem filters_leave_original_unchanged:
  assumes "self < length st"
  shows "(case filter_by_sender lib st self S of
            (filtered, st') \<Rightarrow>
              length st \<le> filtered \<and> filtered < length st' \<and>
              (\<forall>a<length st. st' ! a = st ! a) \<and>
              sessions (st' ! self) = sessions (st ! self) \<and>
              (\<forall>s. sessions_append filtered s st' ! self = st ! self) \<and>
              (\<forall>s. sessions_append self s st' ! filtered = st' ! filtered)) \<and>
         (case filter_by_labels lib st self lt of
            (filtered, st') \<Rightarrow>
              length st \<le> filtered \<and> filtered < length st' \<and>
              (\<forall>a<length st. st' ! a = st ! a) \<and>
              sessions (st' ! self) = sessions (st ! self) \<and>
              (\<forall>s. sessions_append filtered s st' ! self = st ! self) \<and>
              (\<forall>s. sessions_append self s st' ! filtered = st' ! filtered))"
  using assms
  by (simp add: filter_by_sender_result filter_by_labels_result sessions_append_def nth_append)

theorem filters_leave_original_unchanged_witness:
  "snd (filter_by_sender posix [example_dataset] 0 ''robot'') ! 0 = example_dataset \<and>
   fst (filter_by_sender posix [example_dataset] 0 ''robot'') = 1 \<and>
   snd (filter_by_labels posix [example_dataset] 0 (Some ''quality'')) ! 0 = example_dataset \<and>
   fst (filter_by_labels posix [example_dataset] 0 (Some ''quality'')) = 1"
proof -
  have live: "0 < length [example_dataset]" by simp
  from filters_leave_original_unchanged [OF live, where lib = posix and S = "''robot''"
      and lt = "Some ''quality''"]
  show ?thesis
    by (auto simp: split_beta filter_by_sender_result filter_by_labels_result)
qed

section \<open>Properties of loading\<close>

lemma load_session_exports_dir:
  "exports_dir (snd (load_session lib fs sid self)) = exports_dir self"
  by (simp add: load_session_def split: option.splits sum.splits)

lemma load_session_missing:
  "fs (session_file lib self sid) = None \<Longrightarrow>
   load_session lib fs sid self =
     (Some (FileNotFoundError
        (''Session export not found: '' @ str lib (session_file lib self sid))), self)"
  by (simp add: load_session_def)

lemma load_session_found:
  "fs (session_file lib self sid) = Some (Inr doc) \<Longrightarrow> doc_data doc = Some d \<Longrightarrow>
   doc_info doc = Some i \<Longrightarrow>
   load_session lib fs sid self =
     (None, self\<lparr>sessions := sessions self @ [\<lparr>session_id = sid, data = d, info = i\<rparr>]\<rparr>)"
  by (simp add: load_session_def)

text \<open>Whatever \<^verbatim>\<open>load_session\<close> raises, it leaves the instance as it was.\<close>

lemma load_session_failed_unchanged:
  "load_session lib fs sid self = (Some e, self') \<Longrightarrow> self' = self"
  by (auto simp: load_session_def split: option.splits sum.splits)

lemma load_entries_spec:
  assumes "\<forall>sid\<in>set ids. fs (joinpath lib E (sid @ ''_huggingface.json'')) = None \<or>
      (\<exists>doc. fs (joinpath lib E (sid @ ''_huggingface.json'')) = Some (Inr doc) \<and>
         doc_data doc = Some (fst (content sid)) \<and> doc_info doc = Some (snd (content sid)))"
    and "exports_dir self = E"
  shows "load_entries lib fs (map Some ids) self out =
     (None,
      self\<lparr>sessions := sessions self @
        map (\<lambda>sid. \<lparr>session_id = sid, data = fst (content sid), info = snd (content sid)\<rparr>)
          (filter (\<lambda>sid. fs (joinpath lib E (sid @ ''_huggingface.json'')) \<noteq> None) ids)\<rparr>,
      out @ map (\<lambda>sid. ''Warning: Could not load session '' @ sid)
          (filter (\<lambda>sid. fs (joinpath lib E (sid @ ''_huggingface.json'')) = None) ids))"
  using assms
proof (induction ids arbitrary: self out)
  case Nil
  then show ?case by simp
next
  case (Cons sid ids)
  from Cons.prems(2)
  have path: "session_file lib self sid = joinpath lib E (sid @ ''_huggingface.json'')"
    by (simp add: session_file_def)
  from Cons.prems(1)
  have rest: "\<forall>sid\<in>set ids. fs (joinpath lib E (sid @ ''_huggingface.json'')) = None \<or>
      (\<exists>doc. fs (joinpath lib E (sid @ ''_huggingface.json'')) = Some (Inr doc) \<and>
         doc_data doc = Some (fst (content sid)) \<and> doc_info doc = Some (snd (content sid)))"
    by simp
  show ?case
  proof (cases "fs (joinpath lib E (sid @ ''_huggingface.json''))")
    case None
    with path have "load_session lib fs sid self =
      (Some (FileNotFoundError
         (''Session export not found: '' @ str lib (session_file lib self sid))), self)"
      by (simp add: load_session_missing)
    with None Cons.IH [OF rest Cons.prems(2)] show ?thesis by simp
  next
    case (Some r)
    with Cons.prems(1) obtain doc where doc: "r = Inr doc"
      "doc_data doc = Some (fst (content sid))" "doc_info doc = Some (snd (content sid))"
      by auto
    let ?self' = "self\<lparr>sessions := sessions self @
      [\<lparr>session_id = sid, data = fst (content sid), info = snd (content sid)\<rparr>]\<rparr>"
    from Some doc path have "load_session lib fs sid self = (None, ?self')"
      by (simp add: load_session_found)
    moreover from Cons.prems(2) have "exports_dir ?self' = E" by simp
    ultimately show ?thesis using Some Cons.IH [OF rest, of ?self' out] by simp
  qed
qed

text \<open>
  Claim C6. The files are the ones that pathlib's join of \<^verbatim>\<open>exports_dir\<close> with the
  file name names. When the manifest file does not exist, \<^verbatim>\<open>load_from_manifest\<close>
  raises \<^verbatim>\<open>FileNotFoundError\<close> and changes nothing. When the manifest lists the
  session identifiers \<open>ids\<close> and every listed export that exists is a document with
  the keys \<^verbatim>\<open>data\<close> and \<^verbatim>\<open>info\<close>, the call raises nothing: it appends, in
  manifest order, one session for each identifier whose export exists, and prints one
  warning for each identifier whose export does not exist. With the manifest of
  \<^verbatim>\<open>s1\<close>, \<^verbatim>\<open>s2\<close>, \<^verbatim>\<open>s3\<close> and the export of \<^verbatim>\<open>s2\<close> absent, the instance
  holds \<^verbatim>\<open>s1\<close> and \<^verbatim>\<open>s3\<close> and one warning is printed.
\<close>

theorem load_from_manifest_spec:
  "(fs (manifest_file lib self) = None \<longrightarrow>
      load_from_manifest lib fs self out =
        (Some (FileNotFoundError
           (''Dataset manifest not found: '' @ str lib (manifest_file lib self))),
         self, out)) \<and>
   (\<forall>manifest ids content.
      fs (manifest_file lib self) = Some (Inr manifest) \<and>
      doc_sessions manifest = Some (map Some ids) \<and>
      (\<forall>sid\<in>set ids. fs (session_file lib self sid) = None \<or>
         (\<exists>doc. fs (session_file lib self sid) = Some (Inr doc) \<and>
            doc_data doc = Some (fst (content sid)) \<and> doc_info doc = Some (snd (content sid)))) \<longrightarrow>
      load_from_manifest lib fs self out =
        (None,
         self\<lparr>sessions := sessions self @
           map (\<lambda>sid. \<lparr>session_id = sid, data = fst (content sid), info = snd (content sid)\<rparr>)
             (filter (\<lambda>sid. fs (session_file lib self sid) \<noteq> None) ids)\<rparr>,
         out @ map (\<lambda>sid. ''Warning: Could not load session '' @ sid)
             (filter (\<lambda>sid. fs (session_file lib self sid) = None) ids)))"
proof (intro conjI allI impI)
  assume "fs (manifest_file lib self) = None"
  then show "load_from_manifest lib fs self out =
        (Some (FileNotFoundError
           (''Dataset manifest not found: '' @ str lib (manifest_file lib self))),
         self, out)"
    by (simp add: load_from_manifest_def)
next
  fix manifest ids and content :: "string \<Rightarrow> message list \<times> json"
  assume a: "fs (manifest_file lib self) = Some (Inr manifest) \<and>
      doc_sessions manifest = Some (map Some ids) \<and>
      (\<forall>sid\<in>set ids. fs (session_file lib self sid) = None \<or>
         (\<exists>doc. fs (session_file lib self sid) = Some (Inr doc) \<and>
            doc_data doc = Some (fst (content sid)) \<and> doc_info doc = Some (snd (content sid))))"
  then have run: "load_from_manifest lib fs self out = load_entries lib fs (map Some ids) self out"
    by (simp add: load_from_manifest_def)
  from a have files:
    "\<forall>sid\<in>set ids. fs (joinpath lib (exports_dir self) (sid @ ''_huggingface.json'')) = None \<or>
      (\<exists>doc. fs (joinpath lib (exports_dir self) (sid @ ''_huggingface.json'')) = Some (Inr doc) \<and>
         doc_data doc = Some (fst (content sid)) \<and> doc_info doc = Some (snd (content sid)))"
    by (simp add: session_file_def)
  show "load_from_manifest lib fs self out =
        (None,
         self\<lparr>sessions := sessions self @
           map (\<lambda>sid. \<lparr>session_id = sid, data = fst (content sid), info = snd (content sid)\<rparr>)
             (filter (\<lambda>sid. fs (session_file lib self sid) \<noteq> None) ids)\<rparr>,
         out @ map (\<lambda>sid. ''Warning: Could not load session '' @ sid)
             (filter (\<lambda>sid. fs (session_file lib self sid) = None) ids))"
    unfolding run session_file_def
    by (rule load_entries_spec [OF files refl])
qed

text \<open>The paths of the examples, as \<^verbatim>\<open>PurePosixPath\<close> builds them.\<close>

lemma posix_ops:
  "Path posix = posix_Path" "joinpath posix = posix_joinpath" "str posix = posix_str"
  by (simp_all add: posix_def)

lemma example_paths:
  "exports_dir (init posix ''../data'') = ([], [''..'', ''data'', ''exports''])"
  "manifest_file posix (init posix ''../data'') =
     ([], [''..'', ''data'', ''exports'', ''dataset_manifest.json''])"
  "session_file posix (init posix ''../data'') ''s1'' =
     ([], [''..'', ''data'', ''exports'', ''s1_huggingface.json''])"
  "session_file posix (init posix ''../data'') ''s2'' =
     ([], [''..'', ''data'', ''exports'', ''s2_huggingface.json''])"
  "session_file posix (init posix ''../data'') ''s3'' =
     ([], [''..'', ''data'', ''exports'', ''s3_huggingface.json''])"
  "manifest_file posix (init posix ''other'') =
     ([], [''other'', ''exports'', ''dataset_manifest.json''])"
  "session_file posix (init posix ''other'') ''s2'' =
     ([], [''other'', ''exports'', ''s2_huggingface.json''])"
  by (simp_all add: init_def manifest_file_def session_file_def posix_ops posix_Path_def
      posix_joinpath_def posix_root_def posix_parts_def)

lemma absolute_path:
  "session_file posix (init posix ''other'') ''/abs/s9'' =
     (''/'', [''abs'', ''s9_huggingface.json''])"
  by (simp add: session_file_def posix_ops posix_Path_def posix_joinpath_def posix_root_def
      posix_parts_def)

lemma init_sessions: "sessions (init lib dir) = []"
  by (simp add: init_def)

theorem load_from_manifest_spec_witness:
  "load_from_manifest posix example_fs (init posix ''../data'') [] =
     (None, example_dataset, [''Warning: Could not load session s2'']) \<and>
   load_from_manifest posix absolute_fs (init posix ''other'') [] =
     (None, (init posix ''other'')\<lparr>sessions := [example_s3\<lparr>session_id := ''/abs/s9''\<rparr>]\<rparr>,
      [''Warning: Could not load session s2'']) \<and>
   load_from_manifest posix (\<lambda>path. None) (init posix ''../data'') [] =
     (Some (FileNotFoundError ''Dataset manifest not found: ../data/exports/dataset_manifest.json''),
      init posix ''../data'', [])"
proof (intro conjI)
  let ?self = "init posix ''../data''"
  let ?content = "\<lambda>sid. if sid = ''s1'' then (data example_s1, info example_s1)
                       else (data example_s3, info example_s3)"
  let ?manifest = "\<lparr>doc_data = None, doc_info = None,
                    doc_sessions = Some [Some ''s1'', Some ''s2'', Some ''s3'']\<rparr>"
  have fs_ok: "example_fs (manifest_file posix ?self) = Some (Inr ?manifest) \<and>
      doc_sessions ?manifest = Some (map Some [''s1'', ''s2'', ''s3'']) \<and>
      (\<forall>sid\<in>set [''s1'', ''s2'', ''s3'']. example_fs (session_file posix ?self sid) = None \<or>
         (\<exists>doc. example_fs (session_file posix ?self sid) = Some (Inr doc) \<and>
            doc_data doc = Some (fst (?content sid)) \<and> doc_info doc = Some (snd (?content sid))))"
    by (simp add: example_paths example_fs_def)
  from load_from_manifest_spec [of example_fs posix ?self "[]", THEN conjunct2, rule_format,
      of ?manifest "[''s1'', ''s2'', ''s3'']" ?content, OF fs_ok]
  have "load_from_manifest posix example_fs ?self [] =
        (None,
         ?self\<lparr>sessions := sessions ?self @
           map (\<lambda>sid. \<lparr>session_id = sid, data = fst (?content sid), info = snd (?content sid)\<rparr>)
             (filter (\<lambda>sid. example_fs (session_file posix ?self sid) \<noteq> None)
                [''s1'', ''s2'', ''s3''])\<rparr>,
         [] @ map (\<lambda>sid. ''Warning: Could not load session '' @ sid)
             (filter (\<lambda>sid. example_fs (session_file posix ?self sid) = None)
                [''s1'', ''s2'', ''s3'']))" .
  then show "load_from_manifest posix example_fs ?self [] =
     (None, example_dataset, [''Warning: Could not load session s2''])"
    by (simp add: example_paths example_fs_def example_dataset_def example_s1_def example_s3_def
        init_sessions)
next
  let ?self = "init posix ''other''"
  let ?content = "\<lambda>sid::string. (data example_s3, info example_s3)"
  let ?manifest = "\<lparr>doc_data = None, doc_info = None,
                    doc_sessions = Some [Some ''/abs/s9'', Some ''s2'']\<rparr>"
  have fs_ok: "absolute_fs (manifest_file posix ?self) = Some (Inr ?manifest) \<and>
      doc_sessions ?manifest = Some (map Some [''/abs/s9'', ''s2'']) \<and>
      (\<forall>sid\<in>set [''/abs/s9'', ''s2'']. absolute_fs (session_file posix ?self sid) = None \<or>
         (\<exists>doc. absolute_fs (session_file posix ?self sid) = Some (Inr doc) \<and>
            doc_data doc = Some (fst (?content sid)) \<and> doc_info doc = Some (snd (?content sid))))"
    by (simp add: example_paths absolute_path absolute_fs_def)
  from load_from_manifest_spec [of absolute_fs posix ?self "[]", THEN conjunct2, rule_format,
      of ?manifest "[''/abs/s9'', ''s2'']" ?content, OF fs_ok]
  have "load_from_manifest posix absolute_fs ?self [] =
        (None,
         ?self\<lparr>sessions := sessions ?self @
           map (\<lambda>sid. \<lparr>session_id = sid, data = fst (?content sid), info = snd (?content sid)\<rparr>)
             (filter (\<lambda>sid. absolute_fs (session_file posix ?self sid) \<noteq> None)
                [''/abs/s9'', ''s2''])\<rparr>,
         [] @ map (\<lambda>sid. ''Warning: Could not load session '' @ sid)
             (filter (\<lambda>sid. absolute_fs (session_file posix ?self sid) = None)
                [''/abs/s9'', ''s2'']))" .
  then show "load_from_manifest posix absolute_fs ?self [] =
     (None, ?self\<lparr>sessions := [example_s3\<lparr>session_id := ''/abs/s9''\<rparr>]\<rparr>,
      [''Warning: Could not load session s2''])"
    by (simp add: example_paths absolute_path absolute_fs_def example_s3_def init_sessions)
next
  have "(\<lambda>path. None :: (error + document) option) (manifest_file posix (init posix ''../data'')) = None"
    by simp
  with load_from_manifest_spec [of "\<lambda>path. None" posix "init posix ''../data''" "[]"]
  show "load_from_manifest posix (\<lambda>path. None) (init posix ''../data'') [] =
     (Some (FileNotFoundError ''Dataset manifest not found: ../data/exports/dataset_manifest.json''),
      init posix ''../data'', [])"
    by (simp add: example_paths posix_ops posix_str_def)
qed



text \<open>
  A session identifier that is an absolute path: the join drops the exports directory,
  so the export is looked for, and here found, at that path.
\<close>

lemma load_session_absolute:
  "load_session posix absolute_fs ''/abs/s9'' (init posix ''other'') =
     (None, (init posix ''other'')\<lparr>sessions := [example_s3\<lparr>session_id := ''/abs/s9''\<rparr>]\<rparr>)"
  by (simp add: load_session_def absolute_path absolute_fs_def example_s3_def init_sessions)

section \<open>Label columns\<close>

lemma label_columns_append:
  "label_columns (xs @ ys) row = label_columns ys (label_columns xs row)"
  by (induction xs arbitrary: row) auto

lemma label_columns_lookup:
  "map_of (label_columns ls row) k =
     (case find (\<lambda>l. ''label_'' @ label_type l = k) (rev ls) of
        None \<Rightarrow> map_of row k
      | Some l \<Rightarrow> Some (Val (label_data l)))"
proof (induction ls rule: rev_induct)
  case Nil
  then show ?case by simp
next
  case (snoc l ls)
  then show ?case
    by (simp add: label_columns_append update_conv')
qed

text \<open>
  For a label type \<open>T\<close> other than \<^verbatim>\<open>count\<close>, the column \<^verbatim>\<open>label_<T>\<close> of a
  row is absent when the message has no label of type \<open>T\<close>, and otherwise holds the
  \<^verbatim>\<open>label_data\<close> of the last label of type \<open>T\<close> of the message.
\<close>

lemma label_column_of_type:
  assumes "make_row td sid m = Inr r" and "T \<noteq> ''count''"
  shows "column (''label_'' @ T) r =
     (case find (\<lambda>l. label_type l = T) (rev (get_labels m)) of
        None \<Rightarrow> None
      | Some l \<Rightarrow> Some (Val (label_data l)))"
  using assms
  by (auto simp: make_row_def Let_def column_def label_columns_lookup update_conv'
      split: option.splits)

lemma label_column_populated_iff:
  assumes "make_row td sid m = Inr r" and "T \<noteq> ''count''"
  shows "column (''label_'' @ T) r \<noteq> None \<longleftrightarrow> (\<exists>l\<in>set (get_labels m). label_type l = T)"
proof (cases "find (\<lambda>l. label_type l = T) (rev (get_labels m))")
  case None
  with label_column_of_type [OF assms] show ?thesis
    by (auto simp: find_None_iff)
next
  case (Some l)
  then obtain i where "i < length (rev (get_labels m))"
    and "label_type (rev (get_labels m) ! i) = T" and "l = rev (get_labels m) ! i"
    unfolding find_Some_iff by blast
  then have "l \<in> set (rev (get_labels m)) \<and> label_type l = T"
    using nth_mem [of i "rev (get_labels m)"] by simp
  then have "l \<in> set (get_labels m) \<and> label_type l = T" by simp
  with Some label_column_of_type [OF assms] show ?thesis by auto
qed

text \<open>
  The column \<^verbatim>\<open>label_count\<close> holds the number of labels of the message when no
  label of the message has the type \<^verbatim>\<open>count\<close>; otherwise line 110 overwrites it
  with the \<^verbatim>\<open>label_data\<close> of the last such label.
\<close>

lemma label_count_column:
  assumes "make_row td sid m = Inr r" and "\<forall>l\<in>set (get_labels m). label_type l \<noteq> ''count''"
  shows "column ''label_count'' r = Some (Val (JInt (int (length (get_labels m)))))"
proof -
  from assms(2) have "find (\<lambda>l. ''label_'' @ label_type l = ''label_count'') (rev (get_labels m)) = None"
    by (simp add: find_None_iff)
  with assms(1) show ?thesis
    by (auto simp: make_row_def Let_def column_def label_columns_lookup update_conv'
        split: option.splits)
qed

lemma label_count_overwritten:
  assumes "make_row td sid m = Inr r"
    and "find (\<lambda>l. label_type l = ''count'') (rev (get_labels m)) = Some l"
  shows "column ''label_count'' r = Some (Val (label_data l))"
proof -
  from assms(2) have "get_labels m \<noteq> []" by auto
  with assms show ?thesis
    by (auto simp: make_row_def Let_def column_def label_columns_lookup split: option.splits)
qed

text \<open>
  Claim C8, at the label type \<^verbatim>\<open>count\<close>. The column \<^verbatim>\<open>label_<T>\<close> for
  \<open>T = count\<close> is the column \<^verbatim>\<open>label_count\<close> that line 104 fills for every
  message. In a session whose first message has a label of type \<^verbatim>\<open>count\<close> and
  whose second message has no labels, the column holds the label's data in the first row
  and the number 0 in the second row: it is populated on the row of a message that
  carries no label of that type.
\<close>

theorem label_count_column_collision:
  "\<exists>rows. to_dataframe Some ((init posix ''../data'')\<lparr>sessions := [count_label_session]\<rparr>) = Inr rows \<and>
     map (\<lambda>m. (id_msg m, list_ex (\<lambda>l. label_type l = ''count'') (get_labels m)))
       (data count_label_session) = [(JInt 1, True), (JInt 2, False)] \<and>
     map (\<lambda>r. (column ''message_id'' r, column (''label_'' @ ''count'') r)) rows =
       [(Some (Val (JInt 1)), Some (Val (JStr ''high''))),
        (Some (Val (JInt 2)), Some (Val (JInt 0)))]"
  by (simp add: to_dataframe_def count_label_session_def init_def make_row_def get_labels_def
      column_def)

text \<open>
  Claim C10, at the label type \<^verbatim>\<open>count\<close>. For a message with two labels of type
  \<^verbatim>\<open>count\<close>, with data \<^verbatim>\<open>a\<close> and then \<^verbatim>\<open>b\<close>, the column
  \<^verbatim>\<open>label_<count>\<close> holds \<^verbatim>\<open>b\<close>, the data of the last one; it is the column
  \<^verbatim>\<open>label_count\<close>, which therefore holds \<^verbatim>\<open>b\<close> and not the number 2 of the
  labels of the message.
\<close>

theorem repeated_count_label_row:
  "\<exists>rows. to_dataframe Some ((init posix ''../data'')\<lparr>sessions := [repeated_count_session]\<rparr>) = Inr rows \<and>
     map (\<lambda>m. map label_type (get_labels m)) (data repeated_count_session) =
       [[''count'', ''count'']] \<and>
     map (\<lambda>r. (column (''label_'' @ ''count'') r, column ''label_count'' r)) rows =
       [(Some (Val (JStr ''b'')), Some (Val (JStr ''b'')))]"
  by (simp add: to_dataframe_def repeated_count_session_def init_def make_row_def get_labels_def
      column_def)

end
